theory Spec2Isabelle
  imports Complex_Main "HOL-Library.Sublist"
begin

section \<open>The storage service of the point-of-sale application\<close>

text \<open>
  This theory embeds \<^verbatim>\<open>src/services/storageService.ts\<close>: the fallback key-value
  store \<^verbatim>\<open>safeStorage\<close>, the backend selector \<^verbatim>\<open>init\<close>, the first delivery of
  \<^verbatim>\<open>subscribeProducts\<close> and the mutation operations \<^verbatim>\<open>saveProduct\<close>,
  \<^verbatim>\<open>createOrder\<close>, \<^verbatim>\<open>updateOrderStatus\<close> and \<^verbatim>\<open>finalizeTable\<close>.

  Conventions. A JavaScript string is a \<^typ>\<open>string\<close>, one \<^typ>\<open>char\<close> per code
  unit (every code unit of the source's literals is below 256). \<^verbatim>\<open>null\<close> and
  \<^verbatim>\<open>undefined\<close> are \<^term>\<open>None\<close>. A thrown exception is the \<^term>\<open>Inl\<close> branch of a
  sum. A price or a total is a JavaScript number, a binary64 floating-point value; it is
  the rational it denotes (\<^typ>\<open>rat\<close>), and \<^verbatim>\<open>+\<close> and \<^verbatim>\<open>*\<close> on prices round their
  exact result to binary64. Stock counts, quantities and timestamps are integers
  (\<^typ>\<open>int\<close>), on which JavaScript's arithmetic is exact below \<open>2^53\<close>.
  \<^verbatim>\<open>Date.now()\<close> is a parameter of the operation that reads the clock.
\<close>

subsection \<open>JavaScript helpers\<close>

text \<open>\<^verbatim>\<open>try { body } catch (e) { handler }\<close> on computations that may throw.\<close>

definition try_catch :: "'e + 'a \<Rightarrow> ('e \<Rightarrow> 'e + 'a) \<Rightarrow> 'e + 'a" where
  "try_catch body handler = (case body of Inl e \<Rightarrow> handler e | Inr v \<Rightarrow> Inr v)"

text \<open>Sequencing of computations that may throw: the first exception ends the block.\<close>

definition and_then :: "'e + 'a \<Rightarrow> ('a \<Rightarrow> 'e + 'b) \<Rightarrow> 'e + 'b" where
  "and_then m f = (case m of Inl e \<Rightarrow> Inl e | Inr v \<Rightarrow> f v)"

text \<open>\<^verbatim>\<open>x || null\<close> on an optional string: \<^verbatim>\<open>undefined\<close> and the empty string
  are falsy, so both give \<^verbatim>\<open>null\<close>.\<close>

definition or_null :: "string option \<Rightarrow> string option" where
  "or_null x = (case x of None \<Rightarrow> None | Some s \<Rightarrow> (if s = [] then None else Some s))"

text \<open>\<^verbatim>\<open>a || b\<close> on two strings: the first one unless it is empty.\<close>

definition or_else :: "string \<Rightarrow> string \<Rightarrow> string" where
  "or_else a b = (if a \<noteq> [] then a else b)"

text \<open>\<^verbatim>\<open>Array.prototype.findIndex\<close>: the first index whose element satisfies the
  predicate; JavaScript's \<^verbatim>\<open>-1\<close> is \<^term>\<open>None\<close>, so that the source's test
  \<^verbatim>\<open>index >= 0\<close> is the test for \<^term>\<open>Some\<close>.\<close>

fun findIndex :: "('a \<Rightarrow> bool) \<Rightarrow> 'a list \<Rightarrow> nat option" where
  "findIndex P [] = None"
| "findIndex P (x # xs) =
     (if P x then Some 0 else (case findIndex P xs of None \<Rightarrow> None | Some i \<Rightarrow> Some (Suc i)))"

text \<open>\<^verbatim>\<open>String.prototype.includes\<close>: the pattern occurs as a contiguous block.\<close>

fun str_includes :: "string \<Rightarrow> string \<Rightarrow> bool" where
  "str_includes [] pat = (pat = [])"
| "str_includes (c # cs) pat = (prefix pat (c # cs) \<or> str_includes cs pat)"

text \<open>\<^verbatim>\<open>Number.prototype.toString\<close> on an integer: its decimal digits, with a
  minus sign when negative.\<close>

function digits :: "nat \<Rightarrow> string" where
  "digits n =
     (if n < 10 then [''0123456789'' ! n]
      else digits (n div 10) @ [''0123456789'' ! (n mod 10)])"
  by pat_completeness auto
termination
  by (relation "measure (\<lambda>n. n)") auto

declare digits.simps [simp del]

definition toString :: "int \<Rightarrow> string" where
  "toString n = (if n < 0 then CHR ''-'' # digits (nat (- n)) else digits (nat n))"

subsection \<open>JavaScript numbers\<close>

text \<open>
  \<open>bit_length n\<close> is the number of binary digits of \<open>n\<close>, and \<open>floor_log2 x\<close>, for a
  positive \<open>x\<close>, the exponent \<open>k\<close> with \<open>2^k \<le> x < 2^(k+1)\<close>, found from the bit lengths of
  numerator and denominator. \<open>round_half_even\<close> rounds to the nearest integer, a tie
  to the even one. \<open>binary64 x\<close> is the binary64 value nearest to \<open>x\<close>, ties to even:
  \<open>x\<close> is scaled so that its integer part has 53 binary digits, rounded and scaled
  back. The exponent is not bounded: overflow to \<^verbatim>\<open>Infinity\<close>, subnormal values,
  \<^verbatim>\<open>NaN\<close> and the sign of zero are not modelled. \<open>js_add\<close> and \<open>js_mul\<close> are
  \<^verbatim>\<open>+\<close> and \<^verbatim>\<open>*\<close> on numbers: the exact result, rounded.
\<close>

function bit_length :: "nat \<Rightarrow> nat" where
  "bit_length n = (if n = 0 then 0 else Suc (bit_length (n div 2)))"
  by pat_completeness auto
termination
  by (relation "measure (\<lambda>n. n)") auto

declare bit_length.simps [simp del]

definition floor_log2 :: "rat \<Rightarrow> int" where
  "floor_log2 x =
     (let (p, q) = quotient_of x;
          k = int (bit_length (nat p)) - int (bit_length (nat q))
      in if 2 powi k \<le> x then k else k - 1)"

definition round_half_even :: "rat \<Rightarrow> int" where
  "round_half_even x =
     (let f = \<lfloor>x\<rfloor>; r = x - of_int f
      in if r < 1 / 2 then f else if 1 / 2 < r then f + 1 else if even f then f else f + 1)"

definition binary64 :: "rat \<Rightarrow> rat" where
  "binary64 x =
     (if x = 0 then 0
      else (let e = floor_log2 \<bar>x\<bar> - 52
            in of_int (round_half_even (x / 2 powi e)) * 2 powi e))"

definition js_add :: "rat \<Rightarrow> rat \<Rightarrow> rat" where
  "js_add a b = binary64 (a + b)"

definition js_mul :: "rat \<Rightarrow> rat \<Rightarrow> rat" where
  "js_mul a b = binary64 (a * b)"

subsection \<open>The fallback key-value store\<close>

text \<open>
  \<^verbatim>\<open>localStorage\<close> is the persistent medium. An access to it may throw (storage
  blocked by the browser, quota exceeded); whether it does is not decided by the
  program, so each access takes its outcome as the parameter \<open>fault\<close>: \<^term>\<open>None\<close> when
  the medium serves the access, \<open>Some e\<close> when it throws \<open>e\<close>. A write that throws
  leaves the medium as it was.
\<close>

datatype storage_error = SecurityError | QuotaExceededError

type_synonym medium = "string \<rightharpoonup> string"

definition localStorage_getItem ::
  "storage_error option \<Rightarrow> medium \<Rightarrow> string \<Rightarrow> storage_error + string option" where
  "localStorage_getItem fault ls key = (case fault of Some e \<Rightarrow> Inl e | None \<Rightarrow> Inr (ls key))"

definition localStorage_setItem ::
  "storage_error option \<Rightarrow> medium \<Rightarrow> string \<Rightarrow> string \<Rightarrow> storage_error + medium" where
  "localStorage_setItem fault ls key v =
     (case fault of Some e \<Rightarrow> Inl e | None \<Rightarrow> Inr (ls(key \<mapsto> v)))"

definition localStorage_removeItem ::
  "storage_error option \<Rightarrow> medium \<Rightarrow> string \<Rightarrow> storage_error + medium" where
  "localStorage_removeItem fault ls key =
     (case fault of Some e \<Rightarrow> Inl e | None \<Rightarrow> Inr (ls(key := None)))"

text \<open>The state of \<^verbatim>\<open>safeStorage\<close>: the module's \<^verbatim>\<open>memoryStore\<close> map and the medium.\<close>

record safeStorage =
  memoryStore :: "string \<rightharpoonup> string"
  localStorage :: medium

text \<open>\<^verbatim>\<open>safeStorage.getItem\<close> (lines 39-52): the medium's value, unless it is
  \<^verbatim>\<open>null\<close> and the memory map has the key; the memory map's value when the
  medium throws.\<close>

definition getItem ::
  "storage_error option \<Rightarrow> safeStorage \<Rightarrow> string \<Rightarrow> storage_error + string option" where
  "getItem fault s key =
     try_catch
       (and_then (localStorage_getItem fault (localStorage s) key)
          (\<lambda>item.
             if item = None \<and> memoryStore s key \<noteq> None
             then Inr (or_null (memoryStore s key))
             else Inr item))
       (\<lambda>e. Inr (or_null (memoryStore s key)))"

text \<open>\<^verbatim>\<open>safeStorage.setItem\<close> (lines 53-62): the memory map first, then the medium,
  whose exception is ignored.\<close>

definition setItem ::
  "storage_error option \<Rightarrow> safeStorage \<Rightarrow> string \<Rightarrow> string \<Rightarrow> storage_error + safeStorage" where
  "setItem fault s key v =
     (let s1 = s\<lparr>memoryStore := (memoryStore s)(key \<mapsto> v)\<rparr>
      in try_catch
           (and_then (localStorage_setItem fault (localStorage s1) key v)
              (\<lambda>ls. Inr (s1\<lparr>localStorage := ls\<rparr>)))
           (\<lambda>e. Inr s1))"

text \<open>\<^verbatim>\<open>safeStorage.removeItem\<close> (lines 63-70).\<close>

definition removeItem ::
  "storage_error option \<Rightarrow> safeStorage \<Rightarrow> string \<Rightarrow> storage_error + safeStorage" where
  "removeItem fault s key =
     (let s1 = s\<lparr>memoryStore := (memoryStore s)(key := None)\<rparr>
      in try_catch
           (and_then (localStorage_removeItem fault (localStorage s1) key)
              (\<lambda>ls. Inr (s1\<lparr>localStorage := ls\<rparr>)))
           (\<lambda>e. Inr s1))"

subsection \<open>The data model\<close>

text \<open>
  Modelled from the spec: the declarations of \<^verbatim>\<open>../types\<close> (\<^verbatim>\<open>Product\<close>,
  \<^verbatim>\<open>Category\<close>, \<^verbatim>\<open>Order\<close>, \<^verbatim>\<open>OrderStatus\<close>, \<^verbatim>\<open>TableStatus\<close>), which the
  source imports and which are not part of the sources at hand. The fields are those the
  source reads and writes; each enumeration has the members the source names and one
  more constructor for every other member. Field names carry a prefix (\<open>p_\<close>, \<open>li_\<close>,
  \<open>o_\<close>, \<open>t_\<close>), since several records have a \<^verbatim>\<open>name\<close>, a \<^verbatim>\<open>price\<close> or an \<^verbatim>\<open>id\<close>.
\<close>

datatype Category = BEBIDAS | TIRA_GOSTO | OTHER_CATEGORY string

datatype OrderStatus = PENDING | PAID | CANCELED | OTHER_STATUS string

datatype TableStatus = CLOSING_REQUESTED | OTHER_TABLE_STATUS string

record Product =
  p_id :: string
  p_name :: string
  p_description :: string
  p_price :: rat
  p_category :: Category
  p_stock :: int
  p_imageUrl :: string

text \<open>An element of the \<^verbatim>\<open>items\<close> argument of \<^verbatim>\<open>createOrder\<close>.\<close>

record CartItem =
  product :: Product
  quantity :: int

record LineItem =
  li_productId :: string
  li_name :: string
  li_price :: rat
  li_quantity :: int

text \<open>The table identifier of a stored order is a number or, in records written by
  other call sites, its string form; \<^verbatim>\<open>finalizeTable\<close> allows for both.\<close>

datatype js_tableId = NumId int | StrId string

record Order =
  o_id :: string
  o_tableId :: js_tableId
  o_status :: OrderStatus
  o_timestamp :: int
  o_items :: "LineItem list"
  o_total :: rat
  o_observation :: string

record TableSession =
  t_status :: TableStatus
  t_paymentMethod :: string

text \<open>\<^verbatim>\<open>DatabaseConfig\<close> (lines 8-15). An absent \<^verbatim>\<open>apiKey\<close> and an empty one are
  both falsy and both the empty string here.\<close>

record DatabaseConfig =
  apiKey :: string
  authDomain :: string
  projectId :: string
  storageBucket :: string
  messagingSenderId :: string
  appId :: string

text \<open>\<^verbatim>\<open>INITIAL_PRODUCTS\<close> (lines 18-23). The letters outside ASCII are given by
  their code units.\<close>

definition INITIAL_PRODUCTS :: "Product list" where
  "INITIAL_PRODUCTS =
     [\<lparr>p_id = ''1'', p_name = ''Cerveja Gelada 600ml'', p_description = ''Estupidamente gelada'',
       p_price = 15, p_category = BEBIDAS, p_stock = 48,
       p_imageUrl = ''https://picsum.photos/200/200?random=1''\<rparr>,
      \<lparr>p_id = ''2'', p_name = CHR 0xC1 # ''gua de Coco'', p_description = ''Natural da fruta'',
       p_price = 8, p_category = BEBIDAS, p_stock = 20,
       p_imageUrl = ''https://picsum.photos/200/200?random=2''\<rparr>,
      \<lparr>p_id = ''3'', p_name = ''Isca de Peixe'',
       p_description = ''Acompanha molho t'' @ [CHR 0xE1] @ ''rtaro'',
       p_price = 45, p_category = TIRA_GOSTO, p_stock = 10,
       p_imageUrl = ''https://picsum.photos/200/200?random=3''\<rparr>,
      \<lparr>p_id = ''4'', p_name = ''Batata Frita'',
       p_description = ''Por'' @ [CHR 0xE7, CHR 0xE3] @ ''o generosa'',
       p_price = 25, p_category = TIRA_GOSTO, p_stock = 15,
       p_imageUrl = ''https://picsum.photos/200/200?random=4''\<rparr>]"

subsection \<open>The entries of the fallback store\<close>

text \<open>
  The service keeps four entries in \<^verbatim>\<open>safeStorage\<close>, under the keys of
  \<^verbatim>\<open>STORAGE_KEYS\<close> (lines 25-30), each the \<^verbatim>\<open>JSON.stringify\<close> of a collection. The
  operations are modelled on the parsed entries: a field is \<^term>\<open>None\<close> where
  \<^verbatim>\<open>safeStorage.getItem\<close> gives \<^verbatim>\<open>null\<close> (or the empty text, which every
  operation treats as \<^verbatim>\<open>null\<close>), and \<open>Some c\<close> where it gives the text of \<open>c\<close>.
  This is the store as the operations see it while the medium serves every access, or
  refuses every access (the memory map is then read and written alone);
  \<^verbatim>\<open>saveProduct\<close>, \<^verbatim>\<open>finalizeTable\<close> and the products subscription are modelled on
  it.
  The stored configuration may be text that \<^verbatim>\<open>JSON.parse\<close> rejects.
\<close>

datatype stored_config = InvalidJson | ConfigJson DatabaseConfig

record local_store =
  PRODUCTS :: "Product list option"
  ORDERS :: "Order list option"
  TABLES :: "(string \<rightharpoonup> TableSession) option"
  DB_CONFIG :: "stored_config option"

text \<open>\<^verbatim>\<open>JSON.parse(safeStorage.getItem(key) || '[]')\<close>.\<close>

definition parsed_or_empty :: "'a list option \<Rightarrow> 'a list" where
  "parsed_or_empty entry = (case entry of None \<Rightarrow> [] | Some xs \<Rightarrow> xs)"

text \<open>\<^verbatim>\<open>JSON.parse(safeStorage.getItem(STORAGE_KEYS.TABLES) || '{}')\<close>.\<close>

definition parsed_or_empty_object :: "('k \<rightharpoonup> 'v) option \<Rightarrow> ('k \<rightharpoonup> 'v)" where
  "parsed_or_empty_object entry = (case entry of None \<Rightarrow> Map.empty | Some m \<Rightarrow> m)"

subsection \<open>The entries behind safeStorage\<close>

text \<open>
  What an operation reads back after a write depends on the medium: \<open>getItem\<close>
  prefers the medium's value, and a write that the medium refused is kept in the
  memory map alone. \<^verbatim>\<open>createOrder\<close> and \<^verbatim>\<open>updateOrderStatus\<close> are therefore
  modelled on both layers: the parsed entries of \<^verbatim>\<open>memoryStore\<close> and the parsed
  entries of \<^verbatim>\<open>localStorage\<close>. Each of the two operations reads the products entry
  once, writes it once, reads the orders entry once and writes it once; the outcome
  of the medium at each of the four accesses is a field of \<open>medium_faults\<close>.
  \<open>read_entry\<close> is \<open>getItem\<close> on a key and \<open>write_PRODUCTS\<close>, \<open>write_ORDERS\<close> are
  \<open>setItem\<close> on the two keys, on parsed entries (the lemmas \<open>read_entry_getItem\<close> and
  \<open>write_entry_setItem\<close> relate them to \<open>getItem\<close> and \<open>setItem\<close>).
\<close>

record shadowed_store =
  memory_entries :: local_store
  medium_entries :: local_store

record medium_faults =
  read_products_fault :: "storage_error option"
  write_products_fault :: "storage_error option"
  read_orders_fault :: "storage_error option"
  write_orders_fault :: "storage_error option"

definition read_entry ::
  "storage_error option \<Rightarrow> (local_store \<Rightarrow> 'a option) \<Rightarrow> shadowed_store \<Rightarrow> 'a option" where
  "read_entry fault entry s =
     (case fault of
        Some e \<Rightarrow> entry (memory_entries s)
      | None \<Rightarrow>
          (case entry (medium_entries s) of
             None \<Rightarrow> entry (memory_entries s)
           | Some v \<Rightarrow> Some v))"

definition write_PRODUCTS ::
  "storage_error option \<Rightarrow> Product list \<Rightarrow> shadowed_store \<Rightarrow> shadowed_store" where
  "write_PRODUCTS fault v s =
     (let s1 = s\<lparr>memory_entries := (memory_entries s)\<lparr>PRODUCTS := Some v\<rparr>\<rparr>
      in case fault of
           Some e \<Rightarrow> s1
         | None \<Rightarrow> s1\<lparr>medium_entries := (medium_entries s1)\<lparr>PRODUCTS := Some v\<rparr>\<rparr>)"

definition write_ORDERS ::
  "storage_error option \<Rightarrow> Order list \<Rightarrow> shadowed_store \<Rightarrow> shadowed_store" where
  "write_ORDERS fault v s =
     (let s1 = s\<lparr>memory_entries := (memory_entries s)\<lparr>ORDERS := Some v\<rparr>\<rparr>
      in case fault of
           Some e \<Rightarrow> s1
         | None \<Rightarrow> s1\<lparr>medium_entries := (medium_entries s1)\<lparr>ORDERS := Some v\<rparr>\<rparr>)"

subsection \<open>The remote backend\<close>

text \<open>
  Firestore is outside the sources; the model keeps what the source relies on. The
  collections \<^verbatim>\<open>products\<close> and \<^verbatim>\<open>orders\<close> are lists of documents in the order
  in which a query returns them, the document identifier in the \<open>p_id\<close> and \<open>o_id\<close>
  field; \<^verbatim>\<open>tables\<close> maps a document identifier to its fields. A backend that
  refuses its calls (\<open>rejecting\<close>) rejects each of them with that error and changes
  nothing. \<^verbatim>\<open>updateDoc\<close> on a document that does not exist is rejected;
  \<^verbatim>\<open>deleteDoc\<close> on one is not. The identifier that \<^verbatim>\<open>addDoc\<close> generates is a
  parameter. Messages to \<^verbatim>\<open>console\<close> and \<^verbatim>\<open>alert\<close> are not modelled.
\<close>

datatype firestore_error =
  PermissionDenied | ResourceExhausted | NotFound | OtherFirestoreError string

record firestore =
  products_col :: "Product list"
  orders_col :: "Order list"
  tables_col :: "string \<rightharpoonup> TableSession"
  rejecting :: "firestore_error option"

definition backend_call :: "firestore \<Rightarrow> (firestore_error + 'a) \<Rightarrow> firestore_error + 'a" where
  "backend_call fs served = (case rejecting fs of Some e \<Rightarrow> Inl e | None \<Rightarrow> served)"

definition updateDoc_products ::
  "string \<Rightarrow> (Product \<Rightarrow> Product) \<Rightarrow> firestore \<Rightarrow> firestore_error + firestore" where
  "updateDoc_products docId upd fs =
     backend_call fs
       (case findIndex (\<lambda>d. p_id d = docId) (products_col fs) of
          None \<Rightarrow> Inl NotFound
        | Some i \<Rightarrow>
            Inr (fs\<lparr>products_col := (products_col fs)[i := upd (products_col fs ! i)]\<rparr>))"

definition updateDoc_orders ::
  "string \<Rightarrow> (Order \<Rightarrow> Order) \<Rightarrow> firestore \<Rightarrow> firestore_error + firestore" where
  "updateDoc_orders docId upd fs =
     backend_call fs
       (case findIndex (\<lambda>d. o_id d = docId) (orders_col fs) of
          None \<Rightarrow> Inl NotFound
        | Some i \<Rightarrow>
            Inr (fs\<lparr>orders_col := (orders_col fs)[i := upd (orders_col fs ! i)]\<rparr>))"

definition addDoc_products :: "string \<Rightarrow> Product \<Rightarrow> firestore \<Rightarrow> firestore_error + firestore" where
  "addDoc_products newId d fs =
     backend_call fs (Inr (fs\<lparr>products_col := products_col fs @ [d\<lparr>p_id := newId\<rparr>]\<rparr>))"

definition addDoc_orders :: "string \<Rightarrow> Order \<Rightarrow> firestore \<Rightarrow> firestore_error + firestore" where
  "addDoc_orders newId d fs =
     backend_call fs (Inr (fs\<lparr>orders_col := orders_col fs @ [d\<lparr>o_id := newId\<rparr>]\<rparr>))"


definition getDocs_orders :: "(Order \<Rightarrow> bool) \<Rightarrow> firestore \<Rightarrow> firestore_error + Order list" where
  "getDocs_orders cond fs = backend_call fs (Inr (filter cond (orders_col fs)))"

definition getDocs_products ::
  "(Product \<Rightarrow> bool) \<Rightarrow> firestore \<Rightarrow> firestore_error + Product list" where
  "getDocs_products cond fs = backend_call fs (Inr (filter cond (products_col fs)))"

text \<open>The state of the service: the module variable \<^verbatim>\<open>db\<close> (line 32), which holds
  the backend when one is connected, and the fallback store.\<close>

record service =
  db :: "firestore option"
  store :: local_store

definition isCloud :: "service \<Rightarrow> bool" where
  "isCloud sv = (db sv \<noteq> None)"

subsection \<open>The backend selector\<close>

text \<open>
  The Firebase SDK is outside the sources. What its calls answer is not decided by
  the program, so \<^verbatim>\<open>init\<close> takes their outcomes as a record: the number of
  registered apps, the outcome of \<^verbatim>\<open>getApp()\<close> at line 84 and at line 117, of
  \<^verbatim>\<open>initializeApp\<close> on a configuration and of \<^verbatim>\<open>getFirestore\<close> on an app. An
  SDK error carries its \<^verbatim>\<open>code\<close>. The compiled-in \<^verbatim>\<open>firebaseConfig\<close>, imported
  from a module that is not part of the sources at hand, is a parameter as well.
\<close>

datatype sdk_error = SdkError (code: string)

datatype firebase_app = FirebaseApp string

record firebase_sdk =
  getApps_length :: nat
  getApp_reuse :: "sdk_error + firebase_app"
  initializeApp_outcome :: "DatabaseConfig \<Rightarrow> sdk_error + firebase_app"
  getApp_recover :: "sdk_error + firebase_app"
  getFirestore_outcome :: "firebase_app \<Rightarrow> sdk_error + firestore"

text \<open>What a call of \<^verbatim>\<open>init\<close> leaves behind: the value it returns (or the
  exception that escapes it), the module variable \<^verbatim>\<open>db\<close>, and the configurations
  it passed to \<^verbatim>\<open>initializeApp\<close>, which are its connection attempts.\<close>

record init_result =
  returned :: "sdk_error + bool"
  db_after :: "firestore option"
  attempts :: "DatabaseConfig list"

text \<open>Lines 81-90: an app that is already registered is reused; an exception on the
  way is caught and \<^verbatim>\<open>init\<close> goes on.\<close>

definition reuse_existing :: "firebase_sdk \<Rightarrow> firestore option" where
  "reuse_existing sdk =
     (if getApps_length sdk > 0
      then (case and_then (getApp_reuse sdk) (getFirestore_outcome sdk) of
              Inr d \<Rightarrow> Some d
            | Inl e \<Rightarrow> None)
      else None)"

text \<open>Lines 94-106: the compiled-in configuration when its key is there and has no
  \<^verbatim>\<open>COLAR_\<close> in it; else, when no argument came, the stored one if it parses.\<close>

definition resolve_config ::
  "DatabaseConfig \<Rightarrow> DatabaseConfig option \<Rightarrow> local_store \<Rightarrow> DatabaseConfig option" where
  "resolve_config firebaseConfig config st =
     (if apiKey firebaseConfig \<noteq> [] \<and> \<not> str_includes (apiKey firebaseConfig) ''COLAR_''
      then Some firebaseConfig
      else if config = None
      then (case DB_CONFIG st of
              None \<Rightarrow> None
            | Some InvalidJson \<Rightarrow> None
            | Some (ConfigJson c) \<Rightarrow> Some c)
      else config)"

text \<open>Lines 108-126.\<close>

definition connect :: "firebase_sdk \<Rightarrow> DatabaseConfig option \<Rightarrow> firestore option \<Rightarrow> init_result" where
  "connect sdk config db0 =
     (case config of
        None \<Rightarrow> \<lparr>returned = Inr False, db_after = db0, attempts = []\<rparr>
      | Some c \<Rightarrow>
          if apiKey c \<noteq> []
          then (case and_then (initializeApp_outcome sdk c) (getFirestore_outcome sdk) of
                  Inr d \<Rightarrow> \<lparr>returned = Inr True, db_after = Some d, attempts = [c]\<rparr>
                | Inl error \<Rightarrow>
                    if code error = ''app/duplicate-app''
                    then (case and_then (getApp_recover sdk) (getFirestore_outcome sdk) of
                            Inr d \<Rightarrow> \<lparr>returned = Inr True, db_after = Some d, attempts = [c]\<rparr>
                          | Inl e \<Rightarrow> \<lparr>returned = Inl e, db_after = db0, attempts = [c]\<rparr>)
                    else \<lparr>returned = Inr False, db_after = db0, attempts = [c]\<rparr>)
          else \<lparr>returned = Inr False, db_after = db0, attempts = []\<rparr>)"

text \<open>\<^verbatim>\<open>StorageService.init\<close> (lines 78-127).\<close>

definition init ::
  "DatabaseConfig \<Rightarrow> firebase_sdk \<Rightarrow> DatabaseConfig option \<Rightarrow> service \<Rightarrow> init_result" where
  "init firebaseConfig sdk config sv =
     (case reuse_existing sdk of
        Some d \<Rightarrow> \<lparr>returned = Inr True, db_after = Some d, attempts = []\<rparr>
      | None \<Rightarrow> connect sdk (resolve_config firebaseConfig config (store sv)) (db sv))"

subsection \<open>Subscriptions\<close>

text \<open>The \<^verbatim>\<open>fetch\<close> of \<^verbatim>\<open>subscribeProducts\<close> in fallback mode (lines 157-165):
  the value it passes to the callback, and the store after it. The subscription runs
  it once at once (line 166) and then on every tick of its timer.\<close>

definition fetch_products :: "local_store \<Rightarrow> Product list \<times> local_store" where
  "fetch_products st =
     (case PRODUCTS st of
        None \<Rightarrow> (INITIAL_PRODUCTS, st\<lparr>PRODUCTS := Some INITIAL_PRODUCTS\<rparr>)
      | Some stored \<Rightarrow> (stored, st))"

text \<open>The first delivery of \<^verbatim>\<open>subscribeProducts\<close> in fallback mode.\<close>

definition subscribeProducts_local :: "local_store \<Rightarrow> Product list \<times> local_store" where
  "subscribeProducts_local st = fetch_products st"

subsection \<open>saveProduct\<close>

text \<open>Fallback mode (lines 261-284). The \<^verbatim>\<open>catch\<close> of line 282 has nothing to
  catch here: \<^verbatim>\<open>safeStorage.setItem\<close> does not throw.\<close>

definition saveProduct_local :: "int \<Rightarrow> Product \<Rightarrow> local_store \<Rightarrow> local_store" where
  "saveProduct_local now product0 st =
     (let products = parsed_or_empty (PRODUCTS st);
          existingIndex = findIndex (\<lambda>p. p_id p = p_id product0) products;
          nameIndex =
            findIndex (\<lambda>p. p_name p = p_name product0 \<and> p_id p \<noteq> p_id product0) products;
          product1 =
            (if p_id product0 = [] \<or> length (p_id product0) < 5
             then product0\<lparr>p_id := ''local_'' @ toString now\<rparr>
             else product0);
          products' =
            (case existingIndex of
               Some i \<Rightarrow> products[i := product1]
             | None \<Rightarrow>
                 (case nameIndex of
                    Some j \<Rightarrow>
                      products[j := (products ! j)
                        \<lparr>p_stock := p_stock (products ! j) + p_stock product1,
                         p_price := p_price product1,
                         p_imageUrl := or_else (p_imageUrl product1) (p_imageUrl (products ! j))\<rparr>]
                  | None \<Rightarrow> products @ [product1]))
      in st\<lparr>PRODUCTS := Some products'\<rparr>)"

text \<open>Cloud mode (lines 214-258); the \<^verbatim>\<open>catch\<close> reports the error and throws it
  again. \<^verbatim>\<open>currentData.stock || 0\<close> is the stock itself on an integer.\<close>

definition saveProduct_cloud :: "string \<Rightarrow> Product \<Rightarrow> firestore \<Rightarrow> firestore_error + firestore" where
  "saveProduct_cloud newId product0 fs =
     (if p_id product0 \<noteq> [] \<and> length (p_id product0) > 0
      then updateDoc_products (p_id product0) (\<lambda>d. product0\<lparr>p_id := p_id d\<rparr>) fs
      else and_then (getDocs_products (\<lambda>d. p_name d = p_name product0) fs)
             (\<lambda>querySnapshot.
                case querySnapshot of
                  existingDoc # _ \<Rightarrow>
                    updateDoc_products (p_id existingDoc)
                      (\<lambda>d. d\<lparr>p_stock := p_stock existingDoc + p_stock product0,
                              p_price := p_price product0,
                              p_description := p_description product0,
                              p_imageUrl := or_else (p_imageUrl product0) (p_imageUrl existingDoc)\<rparr>)
                      fs
                | [] \<Rightarrow> addDoc_products newId product0 fs))"

text \<open>\<^verbatim>\<open>StorageService.saveProduct\<close> (lines 212-286).\<close>

definition saveProduct :: "int \<Rightarrow> string \<Rightarrow> Product \<Rightarrow> service \<Rightarrow> firestore_error + service" where
  "saveProduct now newId product0 sv =
     (case db sv of
        Some fs \<Rightarrow> and_then (saveProduct_cloud newId product0 fs) (\<lambda>fs'. Inr (sv\<lparr>db := Some fs'\<rparr>))
      | None \<Rightarrow> Inr (sv\<lparr>store := saveProduct_local now product0 (store sv)\<rparr>))"

text \<open>\<^verbatim>\<open>StorageService.deleteProduct\<close> (lines 288-295).\<close>

definition deleteProduct :: "string \<Rightarrow> service \<Rightarrow> firestore_error + service" where
  "deleteProduct ident sv =
     (case db sv of
        Some fs \<Rightarrow>
          and_then
            (backend_call fs
               (Inr (fs\<lparr>products_col := filter (\<lambda>d. p_id d \<noteq> ident) (products_col fs)\<rparr>)))
            (\<lambda>fs'. Inr (sv\<lparr>db := Some fs'\<rparr>))
      | None \<Rightarrow>
          Inr (sv\<lparr>store := (store sv)
                 \<lparr>PRODUCTS :=
                    Some (filter (\<lambda>p. p_id p \<noteq> ident) (parsed_or_empty (PRODUCTS (store sv))))\<rparr>\<rparr>))"

subsection \<open>createOrder\<close>

text \<open>The order built at lines 298-310, before it has an identifier (\<open>o_id\<close> is
  empty). The total is the \<^verbatim>\<open>reduce\<close> of line 308: from \<open>0\<close>, left to right, each
  product and each sum in binary64. \<^verbatim>\<open>observation || ''\<close> is the observation, or the
  empty string when there is none.\<close>

definition orderData :: "int \<Rightarrow> int \<Rightarrow> CartItem list \<Rightarrow> string option \<Rightarrow> Order" where
  "orderData now tableId items observation =
     \<lparr>o_id = [],
      o_tableId = NumId tableId,
      o_status = PENDING,
      o_timestamp = now,
      o_items =
        map (\<lambda>i. \<lparr>li_productId = p_id (product i), li_name = p_name (product i),
                   li_price = p_price (product i), li_quantity = quantity i\<rparr>) items,
      o_total =
        foldl (\<lambda>acc curr. js_add acc (js_mul (p_price (product curr)) (of_int (quantity curr))))
          0 items,
      o_observation = (case observation of None \<Rightarrow> [] | Some text \<Rightarrow> text)\<rparr>"

text \<open>One round of the loop of lines 326-331.\<close>

definition decrementStock :: "Product list \<Rightarrow> CartItem \<Rightarrow> Product list" where
  "decrementStock products item =
     (case findIndex (\<lambda>p. p_id p = p_id (product item)) products of
        None \<Rightarrow> products
      | Some pIndex \<Rightarrow>
          products[pIndex := (products ! pIndex)
            \<lparr>p_stock := max 0 (p_stock (products ! pIndex) - quantity item)\<rparr>])"

text \<open>Fallback mode (lines 325-337), through \<^verbatim>\<open>safeStorage\<close>. \<open>nowTs\<close> is the clock at
  line 301, \<open>nowId\<close> at line 334.\<close>

definition createOrder_fallback ::
  "medium_faults \<Rightarrow> int \<Rightarrow> int \<Rightarrow> int \<Rightarrow> CartItem list \<Rightarrow> string option
     \<Rightarrow> shadowed_store \<Rightarrow> shadowed_store" where
  "createOrder_fallback f nowTs nowId tableId items observation s =
     (let products = parsed_or_empty (read_entry (read_products_fault f) PRODUCTS s);
          s1 = write_PRODUCTS (write_products_fault f) (foldl decrementStock products items) s;
          newOrder = (orderData nowTs tableId items observation)\<lparr>o_id := toString nowId\<rparr>;
          orders = parsed_or_empty (read_entry (read_orders_fault f) ORDERS s1)
      in write_ORDERS (write_orders_fault f) (orders @ [newOrder]) s1)"

text \<open>Cloud mode (lines 314-323). The stock updates are started and not awaited: a
  rejected one changes nothing and reaches nobody. They are taken in the order of
  the items, each to its end.\<close>

definition increment_stock :: "firestore \<Rightarrow> CartItem \<Rightarrow> firestore" where
  "increment_stock fs item =
     (case updateDoc_products (p_id (product item))
             (\<lambda>d. d\<lparr>p_stock := p_stock d + (- quantity item)\<rparr>) fs of
        Inr fs' \<Rightarrow> fs'
      | Inl e \<Rightarrow> fs)"

definition createOrder_cloud ::
  "int \<Rightarrow> string \<Rightarrow> int \<Rightarrow> CartItem list \<Rightarrow> string option \<Rightarrow> firestore \<Rightarrow> firestore_error + firestore" where
  "createOrder_cloud nowTs newId tableId items observation fs =
     and_then (addDoc_orders newId (orderData nowTs tableId items observation) fs)
       (\<lambda>fs1. Inr (foldl increment_stock fs1 items))"

text \<open>\<^verbatim>\<open>StorageService.createOrder\<close> (lines 297-339): \<open>db0\<close> is the module variable
  \<^verbatim>\<open>db\<close>, which selects the branch.\<close>

definition createOrder ::
  "medium_faults \<Rightarrow> int \<Rightarrow> int \<Rightarrow> string \<Rightarrow> int \<Rightarrow> CartItem list \<Rightarrow> string option
     \<Rightarrow> firestore option \<Rightarrow> shadowed_store
     \<Rightarrow> firestore_error + (firestore option \<times> shadowed_store)" where
  "createOrder f nowTs nowId newId tableId items observation db0 s =
     (case db0 of
        Some fs \<Rightarrow>
          and_then (createOrder_cloud nowTs newId tableId items observation fs)
            (\<lambda>fs'. Inr (Some fs', s))
      | None \<Rightarrow> Inr (None, createOrder_fallback f nowTs nowId tableId items observation s))"

subsection \<open>updateOrderStatus\<close>

text \<open>One round of the loop of lines 352-355: \<^verbatim>\<open>find\<close> gives the first product
  with the identifier, whose stock is changed in place.\<close>

definition restoreStock :: "Product list \<Rightarrow> LineItem \<Rightarrow> Product list" where
  "restoreStock products item =
     (case findIndex (\<lambda>p. p_id p = li_productId item) products of
        None \<Rightarrow> products
      | Some i \<Rightarrow>
          products[i := (products ! i)\<lparr>p_stock := p_stock (products ! i) + li_quantity item\<rparr>])"

text \<open>Fallback mode (lines 347-360), through \<^verbatim>\<open>safeStorage\<close>.\<close>

definition updateOrderStatus_fallback ::
  "medium_faults \<Rightarrow> string \<Rightarrow> OrderStatus \<Rightarrow> shadowed_store \<Rightarrow> shadowed_store" where
  "updateOrderStatus_fallback f orderId status s =
     (let orders = parsed_or_empty (read_entry (read_orders_fault f) ORDERS s)
      in case findIndex (\<lambda>x. o_id x = orderId) orders of
           None \<Rightarrow> s
         | Some k \<Rightarrow>
             (let order = orders ! k;
                  s1 =
                    (if status = CANCELED \<and> o_status order \<noteq> CANCELED
                     then write_PRODUCTS (write_products_fault f)
                            (foldl restoreStock
                               (parsed_or_empty (read_entry (read_products_fault f) PRODUCTS s))
                               (o_items order))
                            s
                     else s)
              in write_ORDERS (write_orders_fault f) (orders[k := order\<lparr>o_status := status\<rparr>]) s1))"

text \<open>\<^verbatim>\<open>StorageService.updateOrderStatus\<close> (lines 341-362); in cloud mode the
  status alone is written.\<close>

definition updateOrderStatus ::
  "medium_faults \<Rightarrow> string \<Rightarrow> OrderStatus \<Rightarrow> firestore option \<Rightarrow> shadowed_store
     \<Rightarrow> firestore_error + (firestore option \<times> shadowed_store)" where
  "updateOrderStatus f orderId status db0 s =
     (case db0 of
        Some fs \<Rightarrow>
          and_then (updateDoc_orders orderId (\<lambda>d. d\<lparr>o_status := status\<rparr>) fs)
            (\<lambda>fs'. Inr (Some fs', s))
      | None \<Rightarrow> Inr (None, updateOrderStatus_fallback f orderId status s))"

subsection \<open>The table workflow\<close>

text \<open>\<^verbatim>\<open>requestTableClose\<close> in fallback mode (lines 371-373); the property key of
  a number is its \<^verbatim>\<open>toString\<close>.\<close>

definition requestTableClose_local :: "int \<Rightarrow> string \<Rightarrow> local_store \<Rightarrow> local_store" where
  "requestTableClose_local tableId paymentMethod st =
     (let tables = parsed_or_empty_object (TABLES st)
      in st\<lparr>TABLES :=
              Some (tables(toString tableId \<mapsto>
                      \<lparr>t_status = CLOSING_REQUESTED, t_paymentMethod = paymentMethod\<rparr>))\<rparr>)"






subsection \<open>One-shot read\<close>

text \<open>\<^verbatim>\<open>StorageService.getOrdersOnce\<close> (lines 428-436).\<close>

definition getOrdersOnce :: "service \<Rightarrow> firestore_error + Order list" where
  "getOrdersOnce sv =
     (case db sv of
        Some fs \<Rightarrow> getDocs_orders (\<lambda>d. True) fs
      | None \<Rightarrow> Inr (parsed_or_empty (ORDERS (store sv))))"

subsection \<open>Notions used in the statements\<close>

text \<open>
  The definitions of this subsection are not part of the program; the properties
  below are stated and proved with them. Both stock loops change the first product
  that carries an identifier: \<open>adjust_stock\<close> is that step for any change of the
  stock, \<open>adjust_all\<close> a run of such steps, and \<open>first_with_id ps i\<close> says that the
  product at index \<open>i\<close> is the one \<^verbatim>\<open>findIndex\<close> and \<^verbatim>\<open>find\<close> select for its
  identifier (every product is, when the identifiers of the catalog are distinct).
  \<open>erase_stock\<close> forgets the stock of a product. \<open>ordered_quantity\<close> is the quantity
  ordered of a product over the items of an order under creation, \<open>restored_quantity\<close>
  the same over the line items of a stored order.
\<close>

definition adjust_stock :: "string \<Rightarrow> (int \<Rightarrow> int) \<Rightarrow> Product list \<Rightarrow> Product list" where
  "adjust_stock pid f ps =
     (case findIndex (\<lambda>p. p_id p = pid) ps of
        None \<Rightarrow> ps
      | Some i \<Rightarrow> ps[i := (ps ! i)\<lparr>p_stock := f (p_stock (ps ! i))\<rparr>])"

definition adjust_all :: "Product list \<Rightarrow> (string \<times> (int \<Rightarrow> int)) list \<Rightarrow> Product list" where
  "adjust_all ps ops = foldl (\<lambda>qs op. adjust_stock (fst op) (snd op) qs) ps ops"

definition first_with_id :: "Product list \<Rightarrow> nat \<Rightarrow> bool" where
  "first_with_id ps i = (findIndex (\<lambda>p. p_id p = p_id (ps ! i)) ps = Some i)"

definition erase_stock :: "Product \<Rightarrow> Product" where
  "erase_stock p = p\<lparr>p_stock := 0\<rparr>"

definition ordered_quantity :: "CartItem list \<Rightarrow> string \<Rightarrow> int" where
  "ordered_quantity items pid =
     sum_list (map quantity (filter (\<lambda>it. p_id (product it) = pid) items))"






subsection \<open>Example states\<close>

text \<open>A store in fallback mode with two products, and an order for five of the
  second one (three more than in stock) and for one of a product that the catalog
  does not have.\<close>

definition example_catalog :: "Product list" where
  "example_catalog =
     [\<lparr>p_id = ''1'', p_name = ''Cerveja'', p_description = ''Gelada'', p_price = 15,
       p_category = BEBIDAS, p_stock = 48, p_imageUrl = ''a.png''\<rparr>,
      \<lparr>p_id = ''2'', p_name = ''Batata'', p_description = ''Frita'', p_price = 25,
       p_category = TIRA_GOSTO, p_stock = 2, p_imageUrl = ''b.png''\<rparr>]"

definition example_store :: local_store where
  "example_store =
     \<lparr>PRODUCTS = Some example_catalog, ORDERS = None, TABLES = None, DB_CONFIG = None\<rparr>"

definition example_service :: service where
  "example_service = \<lparr>db = None, store = example_store\<rparr>"

definition example_items :: "CartItem list" where
  "example_items =
     [\<lparr>product = example_catalog ! 1, quantity = 5\<rparr>,
      \<lparr>product = (example_catalog ! 0)\<lparr>p_id := ''9''\<rparr>, quantity = 1\<rparr>]"

text \<open>A stored order of table 5 for two of the second product and one of a product
  that the catalog does not have, and the service that holds it.\<close>

definition example_order :: Order where
  "example_order =
     \<lparr>o_id = ''1001'', o_tableId = NumId 5, o_status = PENDING, o_timestamp = 1000,
      o_items =
        [\<lparr>li_productId = ''2'', li_name = ''Batata'', li_price = 25, li_quantity = 2\<rparr>,
         \<lparr>li_productId = ''9'', li_name = ''Cerveja'', li_price = 15, li_quantity = 1\<rparr>],
      o_total = 65, o_observation = []\<rparr>"

definition example_service_with_order :: service where
  "example_service_with_order =
     \<lparr>db = None, store = example_store\<lparr>ORDERS := Some [example_order]\<rparr>\<rparr>"

text \<open>A backend that serves its calls, with two orders of table 5, one carrying
  the table as a number and one as a string, and a close request for the table.\<close>

definition example_firestore :: firestore where
  "example_firestore =
     \<lparr>products_col = example_catalog,
      orders_col = [example_order, example_order\<lparr>o_id := ''1002'', o_tableId := StrId (toString 5)\<rparr>],
      tables_col = [toString 5 \<mapsto> \<lparr>t_status = CLOSING_REQUESTED, t_paymentMethod = ''card''\<rparr>],
      rejecting = None\<rparr>"

definition example_cloud_service :: service where
  "example_cloud_service = \<lparr>db = Some example_firestore, store = example_store\<rparr>"

text \<open>A configuration whose key is the placeholder of the template, an SDK with no
  registered app that accepts every configuration, and a product without identifier
  that carries the name of the second product of the catalog.\<close>

definition placeholder_config :: DatabaseConfig where
  "placeholder_config =
     \<lparr>apiKey = ''COLAR_API_KEY_AQUI'', authDomain = ''app.firebaseapp.com'',
      projectId = ''app'', storageBucket = ''app.appspot.com'',
      messagingSenderId = ''1'', appId = ''1:1:web:1''\<rparr>"

definition example_sdk :: firebase_sdk where
  "example_sdk =
     \<lparr>getApps_length = 0,
      getApp_reuse = Inl (SdkError ''app/no-app''),
      initializeApp_outcome = (\<lambda>c. Inr (FirebaseApp ''[DEFAULT]'')),
      getApp_recover = Inl (SdkError ''app/no-app''),
      getFirestore_outcome = (\<lambda>a. Inr example_firestore)\<rparr>"

definition example_restock :: Product where
  "example_restock =
     \<lparr>p_id = [], p_name = ''Batata'', p_description = ''Nova'', p_price = 30,
      p_category = TIRA_GOSTO, p_stock = 10, p_imageUrl = []\<rparr>"

text \<open>A medium that serves the four accesses of an operation, one that refuses both
  writes, and one that refuses the write of the orders alone.\<close>

definition no_faults :: medium_faults where
  "no_faults =
     \<lparr>read_products_fault = None, write_products_fault = None,
      read_orders_fault = None, write_orders_fault = None\<rparr>"

definition refused_writes :: medium_faults where
  "refused_writes =
     \<lparr>read_products_fault = None, write_products_fault = Some QuotaExceededError,
      read_orders_fault = None, write_orders_fault = Some QuotaExceededError\<rparr>"


text \<open>The store with the catalog and the stored order in both layers, and the same
  store with a stock of \<open>-5\<close> on the first product and no order.\<close>

definition example_shadowed_store :: shadowed_store where
  "example_shadowed_store =
     \<lparr>memory_entries = example_store\<lparr>ORDERS := Some [example_order]\<rparr>,
      medium_entries = example_store\<lparr>ORDERS := Some [example_order]\<rparr>\<rparr>"

definition overdrawn_store :: shadowed_store where
  "overdrawn_store =
     \<lparr>memory_entries =
        example_store\<lparr>PRODUCTS := Some [(example_catalog ! 0)\<lparr>p_stock := - 5\<rparr>, example_catalog ! 1]\<rparr>,
      medium_entries =
        example_store\<lparr>PRODUCTS := Some [(example_catalog ! 0)\<lparr>p_stock := - 5\<rparr>, example_catalog ! 1]\<rparr>\<rparr>"

text \<open>An order for three of a product whose price is \<^verbatim>\<open>8.9\<close>, the binary64 value
  \<open>5010254585449677 / 2^49\<close>.\<close>

definition decimal_price_items :: "CartItem list" where
  "decimal_price_items =
     [\<lparr>product = (example_catalog ! 0)\<lparr>p_price := 5010254585449677 / 562949953421312\<rparr>,
       quantity = 3\<rparr>]"

section \<open>Properties of the fallback key-value store\<close>

lemma getItem_blocked:
  "getItem (Some e) s key = Inr (or_null (memoryStore s key))"
  by (simp add: getItem_def localStorage_getItem_def and_then_def try_catch_def)

lemma getItem_served:
  "getItem None s key =
     Inr (if localStorage s key = None \<and> memoryStore s key \<noteq> None
          then or_null (memoryStore s key) else localStorage s key)"
  by (simp add: getItem_def localStorage_getItem_def and_then_def try_catch_def)

lemma setItem_blocked:
  "setItem (Some e) s key v = Inr (s\<lparr>memoryStore := (memoryStore s)(key \<mapsto> v)\<rparr>)"
  by (simp add: setItem_def localStorage_setItem_def and_then_def try_catch_def)

lemma setItem_served:
  "setItem None s key v =
     Inr (s\<lparr>memoryStore := (memoryStore s)(key \<mapsto> v),
            localStorage := (localStorage s)(key \<mapsto> v)\<rparr>)"
  by (simp add: setItem_def localStorage_setItem_def and_then_def try_catch_def)

lemma removeItem_blocked:
  "removeItem (Some e) s key = Inr (s\<lparr>memoryStore := (memoryStore s)(key := None)\<rparr>)"
  by (simp add: removeItem_def localStorage_removeItem_def and_then_def try_catch_def)

lemma removeItem_served:
  "removeItem None s key =
     Inr (s\<lparr>memoryStore := (memoryStore s)(key := None),
            localStorage := (localStorage s)(key := None)\<rparr>)"
  by (simp add: removeItem_def localStorage_removeItem_def and_then_def try_catch_def)

text \<open>
  Claim C8. No exception escapes the fallback key-value store: whatever the medium
  does at an access (serve it, or throw any error), \<open>getItem\<close>, \<open>setItem\<close> and
  \<open>removeItem\<close> return normally; and when the medium throws, they work on the memory
  map alone: \<open>getItem\<close> answers from it, \<open>setItem\<close> and \<open>removeItem\<close> change nothing else.
\<close>

theorem safeStorage_never_throws:
  "(\<exists>r. getItem fault s key = Inr r) \<and>
   (\<exists>s'. setItem fault s key v = Inr s') \<and>
   (\<exists>s'. removeItem fault s key = Inr s') \<and>
   getItem (Some e) s key = Inr (or_null (memoryStore s key)) \<and>
   setItem (Some e) s key v = Inr (s\<lparr>memoryStore := (memoryStore s)(key \<mapsto> v)\<rparr>) \<and>
   removeItem (Some e) s key = Inr (s\<lparr>memoryStore := (memoryStore s)(key := None)\<rparr>)"
proof -
  have "\<exists>r. getItem fault s key = Inr r"
    by (cases fault) (simp_all add: getItem_blocked getItem_served)
  moreover have "\<exists>s'. setItem fault s key v = Inr s'"
    by (cases fault) (simp_all add: setItem_blocked setItem_served)
  moreover have "\<exists>s'. removeItem fault s key = Inr s'"
    by (cases fault) (simp_all add: removeItem_blocked removeItem_served)
  ultimately show ?thesis
    by (simp add: getItem_blocked setItem_blocked removeItem_blocked)
qed

text \<open>
  Claim C6, as it holds. After \<open>setItem key v\<close> with a value \<open>v\<close> that is not empty,
  whether its write to the medium fails or not, \<open>getItem key\<close> gives \<open>v\<close> from the
  memory map whenever the medium throws at the read or has no value for the key
  (\<open>ls'\<close> is the medium at the time of the read). When the medium serves the read and
  has a value for the key, that value is returned, whatever the memory map holds.
\<close>

theorem getItem_memory_shadow:
  assumes "setItem w s key v = Inr s1" and "v \<noteq> []"
  shows "(rf \<noteq> None \<or> ls' key = None \<longrightarrow>
            getItem rf (s1\<lparr>localStorage := ls'\<rparr>) key = Inr (Some v)) \<and>
         (rf = None \<and> ls' key = Some old \<longrightarrow>
            getItem rf (s1\<lparr>localStorage := ls'\<rparr>) key = Inr (Some old))"
proof -
  have mem: "memoryStore s1 key = Some v"
    using assms(1) by (cases w) (auto simp: setItem_blocked setItem_served)
  show ?thesis
  proof (cases rf)
    case None
    then show ?thesis
      using mem assms(2) by (simp add: getItem_served or_null_def)
  next
    case (Some e)
    then show ?thesis
      using mem assms(2) by (simp add: getItem_blocked or_null_def)
  qed
qed

text \<open>The theorem at a write that fails on an empty medium, read back from a medium
  that has nothing under the key and from one that has a value under it.\<close>

theorem getItem_memory_shadow_witness:
  "setItem (Some QuotaExceededError) \<lparr>memoryStore = Map.empty, localStorage = Map.empty\<rparr>
      ''beach_app_products'' ''[]'' =
     Inr \<lparr>memoryStore = [''beach_app_products'' \<mapsto> ''[]''], localStorage = Map.empty\<rparr> \<and>
   ''[]'' \<noteq> ([] :: string) \<and>
   getItem None
     \<lparr>memoryStore = [''beach_app_products'' \<mapsto> ''[]''], localStorage = Map.empty\<rparr>
     ''beach_app_products'' = Inr (Some ''[]'') \<and>
   getItem None
     \<lparr>memoryStore = [''beach_app_products'' \<mapsto> ''[]''],
      localStorage = [''beach_app_products'' \<mapsto> ''[1]'']\<rparr>
     ''beach_app_products'' = Inr (Some ''[1]'')"
proof -
  let ?s1 = "\<lparr>memoryStore = [''beach_app_products'' \<mapsto> ''[]''], localStorage = Map.empty\<rparr>"
  have h1: "setItem (Some QuotaExceededError) \<lparr>memoryStore = Map.empty, localStorage = Map.empty\<rparr>
      ''beach_app_products'' ''[]'' = Inr ?s1"
    by (simp add: setItem_blocked)
  have h2: "''[]'' \<noteq> ([] :: string)" by simp
  from getItem_memory_shadow [OF h1 h2, of None Map.empty]
  have c1: "getItem None ?s1 ''beach_app_products'' = Inr (Some ''[]'')" by simp
  from getItem_memory_shadow [OF h1 h2, of None "[''beach_app_products'' \<mapsto> ''[1]'']" "''[1]''"]
  have c2: "getItem None \<lparr>memoryStore = [''beach_app_products'' \<mapsto> ''[]''],
      localStorage = [''beach_app_products'' \<mapsto> ''[1]'']\<rparr>
     ''beach_app_products'' = Inr (Some ''[1]'')" by simp
  from h1 h2 c1 c2 show ?thesis by blast
qed

text \<open>
  Claim C6 as stated fails: the medium holds \<open>old\<close> under the key from an earlier
  write, the write of \<open>new\<close> is refused (the quota is exceeded), and the read that
  follows is served: \<open>getItem\<close> gives \<open>old\<close>, not the value last passed to \<open>setItem\<close>.
\<close>

theorem getItem_stale_counterexample:
  "setItem (Some QuotaExceededError)
     \<lparr>memoryStore = [''k'' \<mapsto> ''old''], localStorage = [''k'' \<mapsto> ''old'']\<rparr> ''k'' ''new'' =
     Inr \<lparr>memoryStore = [''k'' \<mapsto> ''new''], localStorage = [''k'' \<mapsto> ''old'']\<rparr> \<and>
   getItem None \<lparr>memoryStore = [''k'' \<mapsto> ''new''], localStorage = [''k'' \<mapsto> ''old'']\<rparr> ''k'' =
     Inr (Some ''old'') \<and>
   Some ''old'' \<noteq> Some ''new''"
  by (simp add: setItem_blocked getItem_served)

section \<open>First delivery of the products subscription\<close>

text \<open>
  Claim C9. In fallback mode the first delivery of \<open>subscribeProducts\<close> on a store
  whose products entry was never written stores the seed catalog \<open>INITIAL_PRODUCTS\<close>,
  which has four products, and delivers it; on a store that has the entry, it
  delivers the stored collection and leaves the store as it is.
\<close>

theorem subscribeProducts_first_delivery:
  "(PRODUCTS st = None \<longrightarrow>
      subscribeProducts_local st =
        (INITIAL_PRODUCTS, st\<lparr>PRODUCTS := Some INITIAL_PRODUCTS\<rparr>)) \<and>
   (PRODUCTS st = Some stored \<longrightarrow> subscribeProducts_local st = (stored, st)) \<and>
   map p_id INITIAL_PRODUCTS = [''1'', ''2'', ''3'', ''4'']"
  by (simp add: subscribeProducts_local_def fetch_products_def INITIAL_PRODUCTS_def)

theorem subscribeProducts_first_delivery_witness:
  "PRODUCTS (example_store\<lparr>PRODUCTS := None\<rparr>) = None \<and>
   subscribeProducts_local (example_store\<lparr>PRODUCTS := None\<rparr>) =
     (INITIAL_PRODUCTS, example_store\<lparr>PRODUCTS := Some INITIAL_PRODUCTS\<rparr>) \<and>
   PRODUCTS example_store = Some example_catalog \<and>
   subscribeProducts_local example_store = (example_catalog, example_store)"
proof -
  have h1: "PRODUCTS (example_store\<lparr>PRODUCTS := None\<rparr>) = None" by simp
  have h2: "PRODUCTS example_store = Some example_catalog"
    by (simp add: example_store_def)
  from subscribeProducts_first_delivery [of "example_store\<lparr>PRODUCTS := None\<rparr>"] h1
  have c1: "subscribeProducts_local (example_store\<lparr>PRODUCTS := None\<rparr>) =
     (INITIAL_PRODUCTS, example_store\<lparr>PRODUCTS := Some INITIAL_PRODUCTS\<rparr>)" by simp
  from subscribeProducts_first_delivery [of example_store example_catalog] h2
  have c2: "subscribeProducts_local example_store = (example_catalog, example_store)" by simp
  from h1 h2 c1 c2 show ?thesis by blast
qed

section \<open>The stock loops\<close>

lemma findIndex_SomeD:
  "findIndex P xs = Some i \<Longrightarrow> i < length xs \<and> P (xs ! i) \<and> (\<forall>j<i. \<not> P (xs ! j))"
proof (induction xs arbitrary: i)
  case Nil
  then show ?case by simp
next
  case (Cons x xs)
  show ?case
  proof (cases "P x")
    case True
    with Cons.prems show ?thesis by simp
  next
    case False
    with Cons.prems obtain k where k: "findIndex P xs = Some k" "i = Suc k"
      by (auto split: option.splits)
    from Cons.IH [OF k(1)] False k(2) show ?thesis
      by (auto simp: nth_Cons split: nat.splits)
  qed
qed

lemma findIndex_None_iff: "findIndex P xs = None \<longleftrightarrow> (\<forall>x\<in>set xs. \<not> P x)"
  by (induction xs) (auto split: option.splits)

lemma findIndex_map: "findIndex P (map f xs) = findIndex (\<lambda>x. P (f x)) xs"
  by (induction xs) auto

lemma findIndex_firstI:
  "i < length xs \<Longrightarrow> P (xs ! i) \<Longrightarrow> (\<forall>j<i. \<not> P (xs ! j)) \<Longrightarrow> findIndex P xs = Some i"
proof (induction xs arbitrary: i)
  case Nil
  then show ?case by simp
next
  case (Cons x xs)
  show ?case
  proof (cases i)
    case 0
    with Cons.prems show ?thesis by simp
  next
    case (Suc k)
    with Cons.prems have "\<not> P x" by auto
    moreover from Suc Cons.prems have "findIndex P xs = Some k"
      by (intro Cons.IH) auto
    ultimately show ?thesis using Suc by simp
  qed
qed

lemma decrementStock_adjust:
  "decrementStock ps it = adjust_stock (p_id (product it)) (\<lambda>s. max 0 (s - quantity it)) ps"
  by (simp add: decrementStock_def adjust_stock_def)


lemma foldl_decrementStock:
  "foldl decrementStock ps items =
     adjust_all ps (map (\<lambda>it. (p_id (product it), \<lambda>s. max 0 (s - quantity it))) items)"
  by (induction items arbitrary: ps) (simp_all add: adjust_all_def decrementStock_adjust)


lemma adjust_stock_erase: "map erase_stock (adjust_stock pid f ps) = map erase_stock ps"
proof (cases "findIndex (\<lambda>p. p_id p = pid) ps")
  case None
  then show ?thesis by (simp add: adjust_stock_def)
next
  case (Some i)
  from findIndex_SomeD [OF Some] have "i < length ps" by simp
  then have "(map erase_stock ps)[i := erase_stock (ps ! i)] = map erase_stock ps"
    by (simp add: list_update_same_conv)
  then show ?thesis
    using Some by (simp add: adjust_stock_def map_update erase_stock_def)
qed

lemma adjust_all_erase: "map erase_stock (adjust_all ps ops) = map erase_stock ps"
  unfolding adjust_all_def
  by (induction ops arbitrary: ps) (simp_all add: adjust_stock_erase)

lemma erase_stock_ids: "map erase_stock ps' = map erase_stock ps \<Longrightarrow> map p_id ps' = map p_id ps"
proof -
  assume h: "map erase_stock ps' = map erase_stock ps"
  have "map p_id qs = map p_id (map erase_stock qs)" for qs
    by (simp add: erase_stock_def)
  with h show ?thesis by metis
qed

lemma first_with_id_cong:
  assumes "map p_id ps' = map p_id ps" and "i < length ps"
  shows "first_with_id ps' i = first_with_id ps i"
proof -
  have *: "findIndex (\<lambda>p. p_id p = x) qs = findIndex (\<lambda>y. y = x) (map p_id qs)" for x qs
    by (simp add: findIndex_map)
  have "findIndex (\<lambda>p. p_id p = x) ps' = findIndex (\<lambda>p. p_id p = x) ps" for x
    by (simp only: * assms(1))
  moreover have "p_id (ps' ! i) = p_id (ps ! i)"
    using assms by (metis length_map nth_map)
  ultimately show ?thesis
    by (simp add: first_with_id_def)
qed

lemma adjust_stock_nth:
  assumes "i < length ps"
  shows "p_stock (adjust_stock pid f ps ! i) =
           (if first_with_id ps i \<and> p_id (ps ! i) = pid then f (p_stock (ps ! i))
            else p_stock (ps ! i))"
proof (cases "findIndex (\<lambda>p. p_id p = pid) ps")
  case None
  then have "p_id (ps ! i) \<noteq> pid"
    using assms by (auto simp: findIndex_None_iff)
  with None show ?thesis by (simp add: adjust_stock_def)
next
  case (Some k)
  note k = findIndex_SomeD [OF Some]
  show ?thesis
  proof (cases "k = i")
    case True
    with Some k show ?thesis
      by (simp add: adjust_stock_def first_with_id_def)
  next
    case False
    have "\<not> (first_with_id ps i \<and> p_id (ps ! i) = pid)"
      using Some False by (auto simp: first_with_id_def)
    with Some False show ?thesis by (auto simp: adjust_stock_def)
  qed
qed

lemma adjust_all_nth:
  assumes "i < length ps"
  shows "p_stock (adjust_all ps ops ! i) =
           (if first_with_id ps i
            then foldl (\<lambda>s f. f s) (p_stock (ps ! i))
                   (map snd (filter (\<lambda>op. fst op = p_id (ps ! i)) ops))
            else p_stock (ps ! i))"
  using assms
proof (induction ops arbitrary: ps)
  case Nil
  then show ?case by (simp add: adjust_all_def)
next
  case (Cons op ops)
  let ?qs = "adjust_stock (fst op) (snd op) ps"
  have ids: "map p_id ?qs = map p_id ps"
    by (rule erase_stock_ids) (rule adjust_stock_erase)
  then have len: "length ?qs = length ps" by (metis length_map)
  have idi: "p_id (?qs ! i) = p_id (ps ! i)"
    using ids Cons.prems len by (metis nth_map)
  have fst: "first_with_id ?qs i = first_with_id ps i"
    using ids Cons.prems by (rule first_with_id_cong)
  have "adjust_all ps (op # ops) = adjust_all ?qs ops"
    by (simp add: adjust_all_def)
  moreover have "i < length ?qs" using len Cons.prems by simp
  ultimately have "p_stock (adjust_all ps (op # ops) ! i) =
      (if first_with_id ?qs i
       then foldl (\<lambda>s f. f s) (p_stock (?qs ! i))
              (map snd (filter (\<lambda>op. fst op = p_id (?qs ! i)) ops))
       else p_stock (?qs ! i))"
    using Cons.IH [of ?qs] by simp
  then show ?case
    using adjust_stock_nth [OF Cons.prems, of "fst op" "snd op"] fst idi by auto
qed

lemma erase_stock_eqD:
  "erase_stock a = erase_stock b \<Longrightarrow> a = b\<lparr>p_stock := p_stock a\<rparr>"
  by (cases a, cases b) (simp add: erase_stock_def)

lemma adjust_all_length: "length (adjust_all ps ops) = length ps"
  using adjust_all_erase [of ps ops] by (metis length_map)

lemma adjust_all_ids: "map p_id (adjust_all ps ops) = map p_id ps"
  by (rule erase_stock_ids) (rule adjust_all_erase)

lemma adjust_all_nth_record:
  assumes "i < length ps"
  shows "adjust_all ps ops ! i = (ps ! i)\<lparr>p_stock := p_stock (adjust_all ps ops ! i)\<rparr>"
proof -
  have "erase_stock (adjust_all ps ops ! i) = erase_stock (ps ! i)"
    using adjust_all_erase [of ps ops] assms adjust_all_length [of ps ops]
    by (metis nth_map)
  then show ?thesis by (rule erase_stock_eqD)
qed

lemma floor_steps_decrement:
  "foldl (\<lambda>s f. f s) s
     (map snd (filter (\<lambda>op. fst op = pid)
        (map (\<lambda>it. (p_id (product it), \<lambda>s. max 0 (s - quantity it))) items))) =
   foldl (\<lambda>s q. max 0 (s - q)) s (map quantity (filter (\<lambda>it. p_id (product it) = pid) items))"
  by (induction items arbitrary: s) simp_all


lemma floor_fold_nonneg_start:
  "0 \<le> (s::int) \<Longrightarrow> 0 \<le> foldl (\<lambda>s q. max 0 (s - q)) s qs"
  by (induction qs arbitrary: s) simp_all

lemma floor_fold_nonneg:
  "qs \<noteq> [] \<Longrightarrow> 0 \<le> foldl (\<lambda>s q. max 0 (s - q)) (s::int) qs"
  by (cases qs) (simp_all add: floor_fold_nonneg_start)

lemma floor_fold_sum_start:
  "0 \<le> (s::int) \<Longrightarrow> \<forall>q\<in>set qs. 0 \<le> q \<Longrightarrow>
     foldl (\<lambda>s q. max 0 (s - q)) s qs = max 0 (s - sum_list qs)"
proof (induction qs arbitrary: s)
  case Nil
  then show ?case by simp
next
  case (Cons q qs)
  have "0 \<le> sum_list qs" using Cons.prems(2) by (simp add: sum_list_nonneg)
  moreover have "foldl (\<lambda>s q. max 0 (s - q)) (max 0 (s - q)) qs =
      max 0 (max 0 (s - q) - sum_list qs)"
    using Cons.prems by (intro Cons.IH) simp_all
  ultimately show ?case by (simp add: max_def)
qed

lemma floor_fold_sum:
  assumes "qs \<noteq> []" and "\<forall>q\<in>set qs. 0 \<le> q"
  shows "foldl (\<lambda>s q. max 0 (s - q)) (s::int) qs = max 0 (s - sum_list qs)"
proof -
  from assms(1) obtain q rest where qs: "qs = q # rest" by (cases qs) auto
  have "0 \<le> sum_list rest" using assms(2) qs by (simp add: sum_list_nonneg)
  moreover have "foldl (\<lambda>s q. max 0 (s - q)) (max 0 (s - q)) rest =
      max 0 (max 0 (s - q) - sum_list rest)"
    using assms(2) qs by (intro floor_fold_sum_start) simp_all
  ultimately show ?thesis using qs by (simp add: max_def)
qed

lemma foldl_decrementStock_stock:
  assumes "i < length ps"
  shows "p_stock (foldl decrementStock ps items ! i) =
           (if first_with_id ps i
            then foldl (\<lambda>s q. max 0 (s - q)) (p_stock (ps ! i))
                   (map quantity (filter (\<lambda>it. p_id (product it) = p_id (ps ! i)) items))
            else p_stock (ps ! i))"
  by (simp add: foldl_decrementStock adjust_all_nth [OF assms] floor_steps_decrement)


lemma decrementStock_absent:
  "p_id (product it) \<notin> p_id ` set ps \<Longrightarrow> decrementStock ps it = ps"
proof -
  assume "p_id (product it) \<notin> p_id ` set ps"
  then have "findIndex (\<lambda>p. p_id p = p_id (product it)) ps = None"
    by (auto simp: findIndex_None_iff image_iff)
  then show ?thesis by (simp add: decrementStock_def)
qed

lemma decrementStock_ids: "map p_id (decrementStock ps it) = map p_id ps"
  unfolding decrementStock_adjust
  by (rule erase_stock_ids) (rule adjust_stock_erase)

lemma foldl_decrementStock_present:
  "foldl decrementStock ps (filter (\<lambda>it. p_id (product it) \<in> p_id ` set ps) items) =
   foldl decrementStock ps items"
proof (induction items arbitrary: ps)
  case Nil
  then show ?case by simp
next
  case (Cons it items)
  show ?case
  proof (cases "p_id (product it) \<in> p_id ` set ps")
    case True
    have "foldl decrementStock (decrementStock ps it)
            (filter (\<lambda>it'. p_id (product it') \<in> p_id ` set (decrementStock ps it)) items) =
          foldl decrementStock (decrementStock ps it) items"
      by (rule Cons.IH)
    moreover have "p_id ` set (decrementStock ps it) = p_id ` set ps"
      using decrementStock_ids [of ps it] by (metis set_map)
    ultimately show ?thesis using True by simp
  next
    case False
    then have "decrementStock ps it = ps" by (rule decrementStock_absent)
    with False Cons.IH [of ps] show ?thesis by simp
  qed
qed

lemma first_with_id_distinct:
  assumes "distinct (map p_id ps)" and "i < length ps"
  shows "first_with_id ps i"
proof -
  have "\<forall>j<i. p_id (ps ! j) \<noteq> p_id (ps ! i)"
  proof (intro allI impI)
    fix j assume "j < i"
    with assms show "p_id (ps ! j) \<noteq> p_id (ps ! i)"
      by (force simp: distinct_conv_nth)
  qed
  with assms(2) show ?thesis
    unfolding first_with_id_def by (intro findIndex_firstI) simp_all
qed

section \<open>The entries behind safeStorage\<close>

lemma parsed_or_empty_simps:
  "parsed_or_empty None = []"
  "parsed_or_empty (Some xs) = xs"
  by (simp_all add: parsed_or_empty_def)


text \<open>\<open>read_entry\<close> and the two writes are \<open>getItem\<close> and \<open>setItem\<close> on a key whose
  values are the texts of parsed values, none of them empty.\<close>

lemma read_entry_getItem:
  assumes "memoryStore ss key = map_option text (entry (memory_entries s))"
    and "localStorage ss key = map_option text (entry (medium_entries s))"
    and "\<forall>v. text v \<noteq> []"
  shows "getItem fault ss key = Inr (map_option text (read_entry fault entry s))"
proof (cases fault)
  case None
  then show ?thesis
    using assms
    by (cases "entry (medium_entries s)"; cases "entry (memory_entries s)")
       (simp_all add: getItem_served read_entry_def or_null_def)
next
  case (Some e)
  then show ?thesis
    using assms
    by (cases "entry (memory_entries s)")
       (simp_all add: getItem_blocked read_entry_def or_null_def)
qed

lemma write_entry_setItem:
  assumes "setItem fault ss key (text v) = Inr ss'"
  shows "memoryStore ss' key = Some (text v) \<and>
         localStorage ss' key =
           (case fault of Some e \<Rightarrow> localStorage ss key | None \<Rightarrow> Some (text v)) \<and>
         (\<forall>k. k \<noteq> key \<longrightarrow>
            memoryStore ss' k = memoryStore ss k \<and> localStorage ss' k = localStorage ss k)"
  using assms by (cases fault) (auto simp: setItem_blocked setItem_served)

lemma write_PRODUCTS_entries:
  "memory_entries (write_PRODUCTS fault v s) = (memory_entries s)\<lparr>PRODUCTS := Some v\<rparr>"
  "medium_entries (write_PRODUCTS fault v s) =
     (case fault of
        Some e \<Rightarrow> medium_entries s
      | None \<Rightarrow> (medium_entries s)\<lparr>PRODUCTS := Some v\<rparr>)"
  by (cases fault; simp add: write_PRODUCTS_def Let_def)+

lemma write_ORDERS_entries:
  "memory_entries (write_ORDERS fault v s) = (memory_entries s)\<lparr>ORDERS := Some v\<rparr>"
  "medium_entries (write_ORDERS fault v s) =
     (case fault of
        Some e \<Rightarrow> medium_entries s
      | None \<Rightarrow> (medium_entries s)\<lparr>ORDERS := Some v\<rparr>)"
  by (cases fault; simp add: write_ORDERS_def Let_def)+

lemma read_ORDERS_write_PRODUCTS:
  "read_entry r ORDERS (write_PRODUCTS fault v s) = read_entry r ORDERS s"
  by (cases fault; cases r)
     (simp_all add: read_entry_def write_PRODUCTS_entries split: option.splits)

lemma read_PRODUCTS_write_ORDERS:
  "read_entry r PRODUCTS (write_ORDERS fault v s) = read_entry r PRODUCTS s"
  by (cases fault; cases r)
     (simp_all add: read_entry_def write_ORDERS_entries split: option.splits)

lemma read_PRODUCTS_write_PRODUCTS:
  "read_entry r PRODUCTS (write_PRODUCTS fault v s) =
     (if fault = None \<or> r \<noteq> None \<or> PRODUCTS (medium_entries s) = None then Some v
      else PRODUCTS (medium_entries s))"
  by (cases fault; cases r; cases "PRODUCTS (medium_entries s)")
     (simp_all add: read_entry_def write_PRODUCTS_entries)

lemma read_ORDERS_write_ORDERS:
  "read_entry r ORDERS (write_ORDERS fault v s) =
     (if fault = None \<or> r \<noteq> None \<or> ORDERS (medium_entries s) = None then Some v
      else ORDERS (medium_entries s))"
  by (cases fault; cases r; cases "ORDERS (medium_entries s)")
     (simp_all add: read_entry_def write_ORDERS_entries)

lemma createOrder_fallback_writes:
  "createOrder_fallback f nowTs nowId tableId items obs s =
     write_ORDERS (write_orders_fault f)
       (parsed_or_empty (read_entry (read_orders_fault f) ORDERS s) @
          [(orderData nowTs tableId items obs)\<lparr>o_id := toString nowId\<rparr>])
       (write_PRODUCTS (write_products_fault f)
          (foldl decrementStock (parsed_or_empty (read_entry (read_products_fault f) PRODUCTS s))
             items)
          s)"
  by (simp add: createOrder_fallback_def Let_def read_ORDERS_write_PRODUCTS)

lemma createOrder_in_fallback:
  "createOrder f nowTs nowId newId tableId items obs None s = Inr (db', s') \<longleftrightarrow>
     db' = None \<and> s' = createOrder_fallback f nowTs nowId tableId items obs s"
  by (auto simp: createOrder_def)

lemma updateOrderStatus_in_fallback:
  "updateOrderStatus f orderId status None s = Inr (db', s') \<longleftrightarrow>
     db' = None \<and> s' = updateOrderStatus_fallback f orderId status s"
  by (auto simp: updateOrderStatus_def)


section \<open>Rounding to binary64\<close>

lemma bit_length_bounds:
  "0 < n \<Longrightarrow> 2 ^ (bit_length n - 1) \<le> n \<and> n < 2 ^ bit_length n"
proof (induction n rule: bit_length.induct)
  case (1 n)
  show ?case
  proof (cases "n div 2 = 0")
    case True
    with "1.prems" have "n = 1" by (auto simp: div_eq_0_iff)
    then show ?thesis by (simp add: bit_length.simps)
  next
    case False
    then have pos: "0 < n div 2" by simp
    from "1.prems" have nz: "n \<noteq> 0" by simp
    from "1.IH" [OF nz pos]
    have ih: "2 ^ (bit_length (n div 2) - 1) \<le> n div 2" "n div 2 < 2 ^ bit_length (n div 2)"
      by simp_all
    have bl: "bit_length n = Suc (bit_length (n div 2))"
      using nz by (subst bit_length.simps) simp
    have blpos: "0 < bit_length (n div 2)"
      using pos by (subst bit_length.simps) simp
    then obtain j where j: "bit_length (n div 2) = Suc j" by (cases "bit_length (n div 2)") auto
    from ih j have "2 * 2 ^ j \<le> 2 * (n div 2)" by simp
    also have "\<dots> \<le> n" by simp
    finally have lo: "2 ^ (bit_length n - 1) \<le> n" using bl j by simp
    from ih(2) have "n < 2 * 2 ^ bit_length (n div 2)" by linarith
    with lo bl show ?thesis by simp
  qed
qed

lemma floor_log2_spec:
  assumes "0 < x"
  shows "2 powi floor_log2 x \<le> x \<and> x < 2 powi (floor_log2 x + 1)"
proof -
  obtain p q where pq: "quotient_of x = (p, q)" by (cases "quotient_of x")
  from quotient_of_denom_pos [OF pq] have q: "0 < q" .
  from quotient_of_div [OF pq] have x: "x = of_int p / of_int q" .
  with assms q have p: "0 < p"
    by (simp add: zero_less_divide_iff)
  define bp where "bp = bit_length (nat p)"
  define bq where "bq = bit_length (nat q)"
  define k where "k = int bp - int bq"
  from bit_length_bounds [of "nat p"] p
  have pb: "2 ^ (bp - 1) \<le> nat p" "nat p < 2 ^ bp" by (simp_all add: bp_def)
  from bit_length_bounds [of "nat q"] q
  have qb: "2 ^ (bq - 1) \<le> nat q" "nat q < 2 ^ bq" by (simp_all add: bq_def)
  have bp1: "1 \<le> bp" using pb(2) p by (cases bp) auto
  have bq1: "1 \<le> bq" using qb(2) q by (cases bq) auto
  have P: "(2::rat) ^ (bp - 1) \<le> of_int p" "of_int p < (2::rat) ^ bp"
  proof -
    from pb(1) have "int (2 ^ (bp - 1)) \<le> p" using p by linarith
    then have "(of_int (int (2 ^ (bp - 1)))::rat) \<le> of_int p" by (simp only: of_int_le_iff)
    then show "(2::rat) ^ (bp - 1) \<le> of_int p" by simp
    from pb(2) have "p < int (2 ^ bp)" using p by linarith
    then have "(of_int p::rat) < of_int (int (2 ^ bp))" by (simp only: of_int_less_iff)
    then show "of_int p < (2::rat) ^ bp" by simp
  qed
  have Q: "(2::rat) ^ (bq - 1) \<le> of_int q" "of_int q < (2::rat) ^ bq"
  proof -
    from qb(1) have "int (2 ^ (bq - 1)) \<le> q" using q by linarith
    then have "(of_int (int (2 ^ (bq - 1)))::rat) \<le> of_int q" by (simp only: of_int_le_iff)
    then show "(2::rat) ^ (bq - 1) \<le> of_int q" by simp
    from qb(2) have "q < int (2 ^ bq)" using q by linarith
    then have "(of_int q::rat) < of_int (int (2 ^ bq))" by (simp only: of_int_less_iff)
    then show "of_int q < (2::rat) ^ bq" by simp
  qed
  have qpos: "(0::rat) < of_int q" using q by simp
  have up: "x < 2 powi (k + 1)"
  proof -
    have "of_int p * (2::rat) ^ (bq - 1) < 2 ^ bp * of_int q"
      using P(2) Q(1) p
      by (intro mult_less_le_imp_less) simp_all
    then have "x * 2 ^ (bq - 1) < 2 ^ bp"
      using qpos by (simp add: x field_simps)
    then have "x < 2 ^ bp / 2 ^ (bq - 1)"
      by (simp add: field_simps)
    also have "\<dots> = 2 powi (int bp - int (bq - 1))"
      by (simp add: power_int_diff)
    also have "int bp - int (bq - 1) = k + 1"
      using bq1 by (simp add: k_def)
    finally show ?thesis .
  qed
  have lo: "2 powi (k - 1) \<le> x"
  proof -
    have "(2::rat) ^ (bp - 1) * of_int q \<le> of_int p * 2 ^ bq"
      using P(1) Q(2) qpos p
      by (intro mult_mono) simp_all
    then have "2 ^ (bp - 1) \<le> x * 2 ^ bq"
      using qpos by (simp add: x field_simps)
    then have "2 ^ (bp - 1) / 2 ^ bq \<le> x"
      by (simp add: field_simps)
    moreover have "(2::rat) ^ (bp - 1) / 2 ^ bq = 2 powi (int (bp - 1) - int bq)"
      by (simp add: power_int_diff)
    moreover have "int (bp - 1) - int bq = k - 1"
      using bp1 by (simp add: k_def)
    ultimately show ?thesis by simp
  qed
  have fl: "floor_log2 x = (if 2 powi k \<le> x then k else k - 1)"
    by (simp add: floor_log2_def pq k_def bp_def bq_def Let_def)
  show ?thesis
  proof (cases "(2::rat) powi k \<le> x")
    case True
    with fl up show ?thesis by simp
  next
    case False
    with fl lo show ?thesis by simp
  qed
qed

lemma floor_log2_unique:
  assumes "0 < x" and "2 powi k \<le> x" and "x < 2 powi (k + 1)"
  shows "floor_log2 x = k"
proof -
  from floor_log2_spec [OF assms(1)]
  have s: "2 powi floor_log2 x \<le> x" "x < 2 powi (floor_log2 x + 1)" by simp_all
  have a: "k < floor_log2 x + 1"
  proof (rule ccontr)
    assume "\<not> k < floor_log2 x + 1"
    then have "(2::rat) powi (floor_log2 x + 1) \<le> 2 powi k"
      by (intro power_int_increasing) simp_all
    with assms(2) s(2) show False by simp
  qed
  have b: "floor_log2 x < k + 1"
  proof (rule ccontr)
    assume "\<not> floor_log2 x < k + 1"
    then have "(2::rat) powi (k + 1) \<le> 2 powi floor_log2 x"
      by (intro power_int_increasing) simp_all
    with assms(3) s(1) show False by simp
  qed
  from a b show ?thesis by simp
qed

lemma round_half_even_int: "round_half_even (of_int z) = z"
  by (simp add: round_half_even_def)

lemma round_half_even_near:
  assumes "\<bar>x - of_int z\<bar> < 1 / 2"
  shows "round_half_even x = z"
proof (cases "of_int z \<le> x")
  case True
  with assms have "\<lfloor>x\<rfloor> = z" by (intro floor_unique) linarith+
  with assms True show ?thesis by (simp add: round_half_even_def Let_def)
next
  case False
  with assms have f: "\<lfloor>x\<rfloor> = z - 1" by (intro floor_unique) (simp, linarith+)
  from False assms have "1 / 2 < x - of_int (z - 1)" by simp
  with f show ?thesis by (simp add: round_half_even_def Let_def)
qed

lemma round_half_even_tie:
  assumes "x = of_int z + 1 / 2"
  shows "round_half_even x = (if even z then z else z + 1)"
proof -
  from assms have "\<lfloor>x\<rfloor> = z" by (intro floor_unique) simp_all
  with assms show ?thesis by (simp add: round_half_even_def Let_def)
qed

lemma binary64_at:
  assumes "x \<noteq> 0" and "2 powi (e + 52) \<le> \<bar>x\<bar>" and "\<bar>x\<bar> < 2 powi (e + 53)"
  shows "binary64 x = of_int (round_half_even (x / 2 powi e)) * 2 powi e"
proof -
  have "floor_log2 \<bar>x\<bar> = e + 52"
    using assms by (intro floor_log2_unique) (simp_all add: add.commute add.left_commute)
  with assms(1) show ?thesis by (simp add: binary64_def)
qed

lemma binary64_of_int:
  assumes "\<bar>n\<bar> < 2 ^ 53"
  shows "binary64 (of_int n) = of_int n"
proof (cases "n = 0")
  case True
  then show ?thesis by (simp add: binary64_def)
next
  case False
  define x :: rat where "x = \<bar>of_int n\<bar>"
  have xpos: "0 < x" using False by (simp add: x_def)
  define lg where "lg = floor_log2 x"
  from floor_log2_spec [OF xpos] have lo: "2 powi lg \<le> x" by (simp add: lg_def)
  have "x < 2 ^ 53"
  proof -
    from assms have "(of_int \<bar>n\<bar> :: rat) < of_int (2 ^ 53)" by (simp only: of_int_less_iff)
    then show ?thesis by (simp add: x_def)
  qed
  with lo have "(2::rat) powi lg < 2 powi 53" by simp
  have le: "lg \<le> 52"
  proof (rule ccontr)
    assume "\<not> lg \<le> 52"
    then have "(2::rat) powi 53 \<le> 2 powi lg"
      by (intro power_int_increasing) simp_all
    with \<open>(2::rat) powi lg < 2 powi 53\<close> show False by simp
  qed
  define j where "j = nat (52 - lg)"
  have e: "lg - 52 = - int j" using le by (simp add: j_def)
  have "of_int n / (2::rat) powi (lg - 52) = of_int (n * 2 ^ j)"
    by (simp add: e power_int_minus field_simps)
  then have "round_half_even (of_int n / 2 powi (lg - 52)) = n * 2 ^ j"
    by (simp only: round_half_even_int)
  then have "of_int (round_half_even (of_int n / 2 powi (lg - 52))) * (2::rat) powi (lg - 52) =
      of_int n"
    by (simp add: e power_int_minus field_simps)
  with False show ?thesis
    by (simp add: binary64_def lg_def x_def Let_def)
qed

lemma binary64_Ints:
  assumes "x \<in> \<int>" and "\<bar>x\<bar> < 2 ^ 53"
  shows "binary64 x = x"
proof -
  from assms(1) obtain n where n: "x = of_int n" by (auto elim: Ints_cases)
  with assms(2) have "(of_int \<bar>n\<bar> :: rat) < of_int (2 ^ 53)" by simp
  then have "\<bar>n\<bar> < 2 ^ 53" by (simp only: of_int_less_iff)
  then show ?thesis unfolding n by (rule binary64_of_int)
qed

lemma total_exact:
  assumes "\<forall>it\<in>set items. p_price (product it) \<in> \<int>"
    and "acc \<in> \<int>"
    and "\<bar>acc\<bar> + sum_list (map (\<lambda>it. \<bar>p_price (product it) * of_int (quantity it)\<bar>) items) < 2 ^ 53"
  shows "foldl (\<lambda>acc curr. js_add acc (js_mul (p_price (product curr)) (of_int (quantity curr))))
           acc items =
         acc + sum_list (map (\<lambda>it. p_price (product it) * of_int (quantity it)) items)"
  using assms
proof (induction items arbitrary: acc)
  case Nil
  then show ?case by simp
next
  case (Cons it items)
  let ?t = "p_price (product it) * of_int (quantity it)"
  let ?rest = "sum_list (map (\<lambda>it. \<bar>p_price (product it) * of_int (quantity it)\<bar>) items)"
  have rest: "0 \<le> ?rest" by (rule sum_list_nonneg) auto
  from Cons.prems(1) have tint: "?t \<in> \<int>" by simp
  from Cons.prems(3) have bound: "\<bar>acc\<bar> + \<bar>?t\<bar> + ?rest < 2 ^ 53" by simp
  have "\<bar>?t\<bar> < 2 ^ 53" using bound rest by linarith
  with tint have mul: "js_mul (p_price (product it)) (of_int (quantity it)) = ?t"
    unfolding js_mul_def by (rule binary64_Ints)
  have sint: "acc + ?t \<in> \<int>" using Cons.prems(2) tint by simp
  have "\<bar>acc + ?t\<bar> < 2 ^ 53" using bound rest by linarith
  with sint have add: "js_add acc ?t = acc + ?t"
    unfolding js_add_def by (rule binary64_Ints)
  have "\<bar>acc + ?t\<bar> + ?rest < 2 ^ 53" using bound by linarith
  with Cons.prems(1) sint
  have "foldl (\<lambda>acc curr. js_add acc (js_mul (p_price (product curr)) (of_int (quantity curr))))
           (acc + ?t) items =
         (acc + ?t) + sum_list (map (\<lambda>it. p_price (product it) * of_int (quantity it)) items)"
    by (intro Cons.IH) simp_all
  then show ?case by (simp add: mul add)
qed

section \<open>The total of an order\<close>

lemma backend_call_Inr:
  "backend_call fs served = Inr r \<longleftrightarrow> rejecting fs = None \<and> served = Inr r"
  by (cases "rejecting fs") (simp_all add: backend_call_def)

lemma updateDoc_products_keeps:
  assumes "updateDoc_products docId upd fs = Inr fs'"
  shows "orders_col fs' = orders_col fs \<and> rejecting fs' = rejecting fs \<and>
         tables_col fs' = tables_col fs"
  using assms
  by (auto simp: updateDoc_products_def backend_call_Inr split: option.splits)

lemma addDoc_products_keeps:
  assumes "addDoc_products newId d fs = Inr fs'"
  shows "orders_col fs' = orders_col fs \<and> rejecting fs' = rejecting fs \<and>
         tables_col fs' = tables_col fs"
  using assms by (auto simp: addDoc_products_def backend_call_Inr)

lemma saveProduct_cloud_keeps:
  assumes "saveProduct_cloud newId p fs = Inr fs'"
  shows "orders_col fs' = orders_col fs \<and> rejecting fs' = rejecting fs"
proof (cases "p_id p \<noteq> [] \<and> length (p_id p) > 0")
  case True
  with assms show ?thesis
    by (auto simp: saveProduct_cloud_def dest: updateDoc_products_keeps)
next
  case False
  with assms obtain snap where
    snap: "getDocs_products (\<lambda>d. p_name d = p_name p) fs = Inr snap" and
    rest: "(case snap of
              existingDoc # _ \<Rightarrow>
                updateDoc_products (p_id existingDoc)
                  (\<lambda>d. d\<lparr>p_stock := p_stock existingDoc + p_stock p,
                          p_price := p_price p,
                          p_description := p_description p,
                          p_imageUrl := or_else (p_imageUrl p) (p_imageUrl existingDoc)\<rparr>)
                  fs
            | [] \<Rightarrow> addDoc_products newId p fs) = Inr fs'"
    by (auto simp: saveProduct_cloud_def and_then_def split: sum.splits)
  show ?thesis
  proof (cases snap)
    case Nil
    with rest show ?thesis by (auto dest: addDoc_products_keeps)
  next
    case (Cons d ds)
    with rest show ?thesis by (auto dest: updateDoc_products_keeps)
  qed
qed

lemma increment_stock_keeps:
  "orders_col (increment_stock fs item) = orders_col fs \<and>
   rejecting (increment_stock fs item) = rejecting fs"
  by (auto simp: increment_stock_def split: sum.splits dest: updateDoc_products_keeps)

lemma foldl_increment_stock_keeps:
  "orders_col (foldl increment_stock fs items) = orders_col fs \<and>
   rejecting (foldl increment_stock fs items) = rejecting fs"
  by (induction items arbitrary: fs) (simp_all add: increment_stock_keeps)

lemma getOrdersOnce_cloud:
  "db sv = Some fs \<Longrightarrow> rejecting fs = None \<Longrightarrow> getOrdersOnce sv = Inr (orders_col fs)"
  by (simp add: getOrdersOnce_def getDocs_orders_def backend_call_def)

lemma saveProduct_keeps_orders:
  assumes "saveProduct now newId p sv = Inr sv'"
  shows "getOrdersOnce sv' = getOrdersOnce sv"
proof (cases "db sv")
  case None
  with assms have "sv' = sv\<lparr>store := saveProduct_local now p (store sv)\<rparr>"
    by (simp add: saveProduct_def)
  moreover have "ORDERS (saveProduct_local now p st) = ORDERS st" for st
    by (simp add: saveProduct_local_def Let_def)
  ultimately show ?thesis
    using None by (simp add: getOrdersOnce_def)
next
  case (Some fs)
  with assms obtain fs' where
    fs': "saveProduct_cloud newId p fs = Inr fs'" and sv': "sv' = sv\<lparr>db := Some fs'\<rparr>"
    by (auto simp: saveProduct_def and_then_def split: sum.splits)
  from saveProduct_cloud_keeps [OF fs'] Some sv' show ?thesis
    by (simp add: getOrdersOnce_def getDocs_orders_def backend_call_def)
qed

lemma createOrder_cloud_appends:
  assumes "createOrder_cloud nowTs newId tableId items obs fs = Inr fs1"
  shows "orders_col fs1 = orders_col fs @ [(orderData nowTs tableId items obs)\<lparr>o_id := newId\<rparr>]"
proof -
  from assms obtain fs0 where
    add: "addDoc_orders newId (orderData nowTs tableId items obs) fs = Inr fs0" and
    fs1: "fs1 = foldl increment_stock fs0 items"
    by (auto simp: createOrder_cloud_def and_then_def split: sum.splits)
  from add have "fs0 = fs\<lparr>orders_col :=
                  orders_col fs @ [(orderData nowTs tableId items obs)\<lparr>o_id := newId\<rparr>]\<rparr>"
    by (auto simp: addDoc_orders_def backend_call_Inr)
  with fs1 foldl_increment_stock_keeps [of fs0 items] show ?thesis by simp
qed

lemma createOrder_fallback_orders:
  "ORDERS (memory_entries (createOrder_fallback f nowTs nowId tableId items obs s)) =
     Some (parsed_or_empty (read_entry (read_orders_fault f) ORDERS s) @
             [(orderData nowTs tableId items obs)\<lparr>o_id := toString nowId\<rparr>])"
  by (simp add: createOrder_fallback_writes write_ORDERS_entries)

text \<open>
  Claim C3, as it holds. The total of the order is the \<^verbatim>\<open>reduce\<close> of line 308: from
  \<open>0\<close>, from left to right, the product of price and quantity of each item and each
  partial sum rounded to binary64. When every price is a whole number and the absolute
  values of the products sum to less than \<open>2^53\<close>, nothing is rounded and the total is
  the sum of price times quantity over the items. The line items carry the price and
  the quantity of each item as supplied. The order is stored as it was built: the
  cloud branch appends it to the orders collection, the fallback branch writes the
  orders it read with the order appended. \<^verbatim>\<open>saveProduct\<close>, the operation that changes
  a price of the catalog, leaves the orders as they were, their totals and the prices
  of their line items with them.
\<close>

theorem createOrder_total_binary64:
  "o_total (orderData nowTs tableId items obs) =
     foldl (\<lambda>acc curr. js_add acc (js_mul (p_price (product curr)) (of_int (quantity curr))))
       0 items \<and>
   ((\<forall>it\<in>set items. p_price (product it) \<in> \<int>) \<and>
    sum_list (map (\<lambda>it. \<bar>p_price (product it) * of_int (quantity it)\<bar>) items) < 2 ^ 53 \<longrightarrow>
      o_total (orderData nowTs tableId items obs) =
        sum_list (map (\<lambda>it. p_price (product it) * of_int (quantity it)) items)) \<and>
   map li_price (o_items (orderData nowTs tableId items obs)) =
     map (\<lambda>it. p_price (product it)) items \<and>
   map li_quantity (o_items (orderData nowTs tableId items obs)) = map quantity items \<and>
   (createOrder_cloud nowTs newId tableId items obs fs = Inr fs1 \<longrightarrow>
      orders_col fs1 =
        orders_col fs @ [(orderData nowTs tableId items obs)\<lparr>o_id := newId\<rparr>]) \<and>
   ORDERS (memory_entries (createOrder_fallback f nowTs nowId tableId items obs s)) =
     Some (parsed_or_empty (read_entry (read_orders_fault f) ORDERS s) @
             [(orderData nowTs tableId items obs)\<lparr>o_id := toString nowId\<rparr>]) \<and>
   (saveProduct now newId' p sv' = Inr sv'' \<longrightarrow> getOrdersOnce sv'' = getOrdersOnce sv')"
proof -
  have def: "o_total (orderData nowTs tableId items obs) =
     foldl (\<lambda>acc curr. js_add acc (js_mul (p_price (product curr)) (of_int (quantity curr))))
       0 items"
    by (simp add: orderData_def)
  have exact: "o_total (orderData nowTs tableId items obs) =
        sum_list (map (\<lambda>it. p_price (product it) * of_int (quantity it)) items)"
    if "(\<forall>it\<in>set items. p_price (product it) \<in> \<int>) \<and>
        sum_list (map (\<lambda>it. \<bar>p_price (product it) * of_int (quantity it)\<bar>) items) < 2 ^ 53"
    using that total_exact [of items 0] by (simp add: def)
  have prices: "map li_price (o_items (orderData nowTs tableId items obs)) =
     map (\<lambda>it. p_price (product it)) items"
    by (simp add: orderData_def comp_def)
  have qtys: "map li_quantity (o_items (orderData nowTs tableId items obs)) =
     map quantity items"
    by (simp add: orderData_def comp_def)
  show ?thesis
    using def exact prices qtys createOrder_cloud_appends createOrder_fallback_orders
      saveProduct_keeps_orders
    by blast
qed

text \<open>The theorem on the example order (prices 25 and 15, total 140), stored in cloud
  mode, and on a later change of the price of the second product.\<close>

theorem createOrder_total_binary64_witness:
  "list_all (\<lambda>it. p_price (product it) \<in> \<int>) example_items \<and>
   sum_list (map (\<lambda>it. \<bar>p_price (product it) * of_int (quantity it)\<bar>) example_items) < 2 ^ 53 \<and>
   o_total (orderData 1000 5 example_items None) = 140 \<and>
   createOrder_cloud 1000 ''doc'' 5 example_items None example_firestore =
     Inr (foldl increment_stock
            (example_firestore
               \<lparr>orders_col := orders_col example_firestore @
                  [(orderData 1000 5 example_items None)\<lparr>o_id := ''doc''\<rparr>]\<rparr>)
            example_items) \<and>
   orders_col
     (foldl increment_stock
        (example_firestore
           \<lparr>orders_col := orders_col example_firestore @
              [(orderData 1000 5 example_items None)\<lparr>o_id := ''doc''\<rparr>]\<rparr>)
        example_items) =
     orders_col example_firestore @ [(orderData 1000 5 example_items None)\<lparr>o_id := ''doc''\<rparr>] \<and>
   saveProduct 2000 ''doc2'' ((example_catalog ! 1)\<lparr>p_price := 30\<rparr>) example_service_with_order =
     Inr (example_service_with_order
            \<lparr>store :=
               saveProduct_local 2000 ((example_catalog ! 1)\<lparr>p_price := 30\<rparr>)
                 (store example_service_with_order)\<rparr>) \<and>
   getOrdersOnce
     (example_service_with_order
        \<lparr>store :=
           saveProduct_local 2000 ((example_catalog ! 1)\<lparr>p_price := 30\<rparr>)
             (store example_service_with_order)\<rparr>) =
     Inr [example_order]"
proof -
  let ?fs0 = "example_firestore
               \<lparr>orders_col := orders_col example_firestore @
                  [(orderData 1000 5 example_items None)\<lparr>o_id := ''doc''\<rparr>]\<rparr>"
  let ?sv2 = "example_service_with_order
        \<lparr>store :=
           saveProduct_local 2000 ((example_catalog ! 1)\<lparr>p_price := 30\<rparr>)
             (store example_service_with_order)\<rparr>"
  note inst = createOrder_total_binary64
    [where nowTs = 1000 and tableId = 5 and items = example_items and obs = None
       and newId = "''doc''" and fs = example_firestore
       and ?fs1.0 = "foldl increment_stock ?fs0 example_items"
       and now = 2000 and newId' = "''doc2''" and p = "(example_catalog ! 1)\<lparr>p_price := 30\<rparr>"
       and sv' = example_service_with_order and sv'' = ?sv2]
  have h1: "list_all (\<lambda>it. p_price (product it) \<in> \<int>) example_items"
    by (simp add: example_items_def example_catalog_def)
  have h2: "sum_list (map (\<lambda>it. \<bar>p_price (product it) * of_int (quantity it)\<bar>) example_items)
              < 2 ^ 53"
    by (simp add: example_items_def example_catalog_def)
  from h1 have h1': "\<forall>it\<in>set example_items. p_price (product it) \<in> \<int>"
    by (simp add: list_all_iff)
  from inst [THEN conjunct2, THEN conjunct1] h1' h2
  have "o_total (orderData 1000 5 example_items None) =
      sum_list (map (\<lambda>it. p_price (product it) * of_int (quantity it)) example_items)"
    by (rule mp [OF _ conjI])
  then have c1: "o_total (orderData 1000 5 example_items None) = 140"
    by (simp add: example_items_def example_catalog_def)
  have h3: "createOrder_cloud 1000 ''doc'' 5 example_items None example_firestore =
     Inr (foldl increment_stock ?fs0 example_items)"
    by (simp add: createOrder_cloud_def addDoc_orders_def backend_call_def and_then_def
        example_firestore_def)
  from inst [THEN conjunct2, THEN conjunct2, THEN conjunct2, THEN conjunct2, THEN conjunct1] h3
  have c2: "orders_col (foldl increment_stock ?fs0 example_items) =
     orders_col example_firestore @ [(orderData 1000 5 example_items None)\<lparr>o_id := ''doc''\<rparr>]"
    by (rule mp)
  have h4: "saveProduct 2000 ''doc2'' ((example_catalog ! 1)\<lparr>p_price := 30\<rparr>)
      example_service_with_order = Inr ?sv2"
    by (simp add: saveProduct_def example_service_with_order_def)
  from inst [THEN conjunct2, THEN conjunct2, THEN conjunct2, THEN conjunct2, THEN conjunct2,
      THEN conjunct2] h4
  have "getOrdersOnce ?sv2 = getOrdersOnce example_service_with_order"
    by (rule mp)
  then have c3: "getOrdersOnce ?sv2 = Inr [example_order]"
    by (simp add: getOrdersOnce_def example_service_with_order_def parsed_or_empty_simps)
  show ?thesis
    using h1 h2 c1 h3 c2 h4 c3 by (intro conjI) assumption+
qed

text \<open>
  Claim C3 as stated fails on a price with decimals. \<^verbatim>\<open>8.9\<close> is the binary64 value
  \<open>5010254585449677 / 2^49\<close>; for three at that price the total is
  \<open>1878845469543629 / 2^46\<close> (\<^verbatim>\<open>26.700000000000003\<close>), one unit in the last place
  above the price times three.
\<close>

theorem createOrder_total_counterexample:
  "binary64 (89 / 10) = 5010254585449677 / 562949953421312 \<and>
   o_total (orderData 1000 5 decimal_price_items None) = 1878845469543629 / 70368744177664 \<and>
   sum_list (map (\<lambda>it. p_price (product it) * of_int (quantity it)) decimal_price_items) =
     15030763756349031 / 562949953421312 \<and>
   (1878845469543629 / 70368744177664 :: rat) \<noteq> 15030763756349031 / 562949953421312"
proof -
  have price: "binary64 (89 / 10) = 5010254585449677 / 562949953421312"
  proof -
    have "binary64 (89 / 10) =
        of_int (round_half_even ((89 / 10) / 2 powi (- 49))) * 2 powi (- 49)"
      by (rule binary64_at) simp_all
    moreover have "round_half_even ((89 / 10) / 2 powi (- 49)) = 5010254585449677"
      by (rule round_half_even_near) (simp add: power_int_minus)
    ultimately show ?thesis by (simp add: power_int_minus)
  qed
  have mul: "js_mul (5010254585449677 / 562949953421312) 3 = 1878845469543629 / 70368744177664"
  proof -
    have "binary64 (5010254585449677 / 562949953421312 * 3) =
        of_int (round_half_even ((5010254585449677 / 562949953421312 * 3) / 2 powi (- 48))) *
          2 powi (- 48)"
      by (rule binary64_at) (simp_all add: power_int_minus)
    moreover have "round_half_even ((5010254585449677 / 562949953421312 * 3) / 2 powi (- 48)) =
        (if even (7515381878174515 :: int) then 7515381878174515 else 7515381878174515 + 1)"
      by (rule round_half_even_tie) (simp add: power_int_minus)
    ultimately show ?thesis by (simp add: js_mul_def power_int_minus)
  qed
  have add: "js_add 0 (1878845469543629 / 70368744177664) = 1878845469543629 / 70368744177664"
  proof -
    have "binary64 (1878845469543629 / 70368744177664) =
        of_int (round_half_even ((1878845469543629 / 70368744177664) / 2 powi (- 48))) *
          2 powi (- 48)"
      by (rule binary64_at) (simp_all add: power_int_minus)
    moreover have "round_half_even ((1878845469543629 / 70368744177664) / 2 powi (- 48)) =
        7515381878174516"
      by (rule round_half_even_near) (simp add: power_int_minus)
    ultimately show ?thesis by (simp add: js_add_def power_int_minus)
  qed
  have total: "o_total (orderData 1000 5 decimal_price_items None) =
      1878845469543629 / 70368744177664"
    by (simp add: orderData_def decimal_price_items_def mul add)
  have exact: "sum_list (map (\<lambda>it. p_price (product it) * of_int (quantity it))
                  decimal_price_items) = 15030763756349031 / 562949953421312"
    by (simp add: decimal_price_items_def)
  have "(1878845469543629 / 70368744177664 :: rat) \<noteq> 15030763756349031 / 562949953421312"
    by simp
  with price total exact show ?thesis by (intro conjI) assumption+
qed

section \<open>createOrder in fallback mode\<close>

lemma createOrder_fallback_fields:
  "PRODUCTS (memory_entries (createOrder_fallback f nowTs nowId tableId items obs s)) =
     Some (foldl decrementStock
             (parsed_or_empty (read_entry (read_products_fault f) PRODUCTS s)) items)"
  "TABLES (memory_entries (createOrder_fallback f nowTs nowId tableId items obs s)) =
     TABLES (memory_entries s)"
  "DB_CONFIG (memory_entries (createOrder_fallback f nowTs nowId tableId items obs s)) =
     DB_CONFIG (memory_entries s)"
  "TABLES (medium_entries (createOrder_fallback f nowTs nowId tableId items obs s)) =
     TABLES (medium_entries s)"
  "DB_CONFIG (medium_entries (createOrder_fallback f nowTs nowId tableId items obs s)) =
     DB_CONFIG (medium_entries s)"
  by (simp_all add: createOrder_fallback_writes write_ORDERS_entries write_PRODUCTS_entries
      split: option.splits)

lemma createOrder_fallback_read_products:
  "read_entry r PRODUCTS (createOrder_fallback f nowTs nowId tableId items obs s) =
     (if write_products_fault f = None \<or> r \<noteq> None \<or> PRODUCTS (medium_entries s) = None
      then Some (foldl decrementStock
                   (parsed_or_empty (read_entry (read_products_fault f) PRODUCTS s)) items)
      else PRODUCTS (medium_entries s))"
  by (simp add: createOrder_fallback_writes read_PRODUCTS_write_ORDERS
      read_PRODUCTS_write_PRODUCTS)

lemma createOrder_fallback_read_orders:
  "read_entry r ORDERS (createOrder_fallback f nowTs nowId tableId items obs s) =
     (if write_orders_fault f = None \<or> r \<noteq> None \<or> ORDERS (medium_entries s) = None
      then Some (parsed_or_empty (read_entry (read_orders_fault f) ORDERS s) @
                   [(orderData nowTs tableId items obs)\<lparr>o_id := toString nowId\<rparr>])
      else ORDERS (medium_entries s))"
proof -
  have "ORDERS (medium_entries (write_PRODUCTS w v s)) = ORDERS (medium_entries s)" for w v
    by (cases w) (simp_all add: write_PRODUCTS_entries)
  then show ?thesis
    by (simp add: createOrder_fallback_writes read_ORDERS_write_ORDERS)
qed

text \<open>
  Claim C10, as it holds. In fallback mode \<open>createOrder\<close> returns, and the catalog it
  writes is the catalog it read with nothing but stocks changed: a product whose
  identifier is the identifier of no item is written as it was, field for field, and
  the items whose identifier is not in the catalog could be left out of the order
  without any difference to the catalog. The orders it writes are the orders it read
  with the new order appended, and the other two entries are not touched. Both writes
  reach the memory map. What \<open>getItem\<close> gives afterwards is what was written when the
  medium accepted the write, or throws at the read (\<open>r\<close> is the outcome of the medium
  at that read), or held nothing under the key; when the medium refused the write of
  the orders and still serves an older orders entry, the read gives that older entry,
  without the new order.
\<close>

theorem createOrder_frame:
  assumes "ps = parsed_or_empty (read_entry (read_products_fault f) PRODUCTS s)"
    and "orders = parsed_or_empty (read_entry (read_orders_fault f) ORDERS s)"
  shows "\<exists>s' ps'.
           createOrder f nowTs nowId newId tableId items obs None s = Inr (None, s') \<and>
           PRODUCTS (memory_entries s') = Some ps' \<and>
           length ps' = length ps \<and>
           (\<forall>i<length ps.
              ps' ! i = (ps ! i)\<lparr>p_stock := p_stock (ps' ! i)\<rparr> \<and>
              (p_id (ps ! i) \<notin> (\<lambda>it. p_id (product it)) ` set items \<longrightarrow> ps' ! i = ps ! i)) \<and>
           ps' = foldl decrementStock ps
                   (filter (\<lambda>it. p_id (product it) \<in> p_id ` set ps) items) \<and>
           ORDERS (memory_entries s') =
             Some (orders @ [(orderData nowTs tableId items obs)\<lparr>o_id := toString nowId\<rparr>]) \<and>
           TABLES (memory_entries s') = TABLES (memory_entries s) \<and>
           DB_CONFIG (memory_entries s') = DB_CONFIG (memory_entries s) \<and>
           TABLES (medium_entries s') = TABLES (medium_entries s) \<and>
           DB_CONFIG (medium_entries s') = DB_CONFIG (medium_entries s) \<and>
           (write_products_fault f = None \<or> r \<noteq> None \<or> PRODUCTS (medium_entries s) = None \<longrightarrow>
              read_entry r PRODUCTS s' = Some ps') \<and>
           (write_orders_fault f = None \<or> r \<noteq> None \<or> ORDERS (medium_entries s) = None \<longrightarrow>
              read_entry r ORDERS s' =
                Some (orders @ [(orderData nowTs tableId items obs)\<lparr>o_id := toString nowId\<rparr>])) \<and>
           (write_orders_fault f \<noteq> None \<and> r = None \<and> ORDERS (medium_entries s) = Some old \<longrightarrow>
              read_entry r ORDERS s' = Some old)"
proof -
  let ?ps' = "foldl decrementStock ps items"
  let ?s' = "createOrder_fallback f nowTs nowId tableId items obs s"
  have run: "createOrder f nowTs nowId newId tableId items obs None s = Inr (None, ?s')"
    by (simp add: createOrder_def)
  have prod: "PRODUCTS (memory_entries ?s') = Some ?ps'"
    using assms(1) by (simp add: createOrder_fallback_fields)
  have len: "length ?ps' = length ps"
    by (simp add: foldl_decrementStock adjust_all_length)
  have rec: "?ps' ! i = (ps ! i)\<lparr>p_stock := p_stock (?ps' ! i)\<rparr>" if "i < length ps" for i
    using that by (simp add: foldl_decrementStock adjust_all_nth_record [symmetric])
  have same: "?ps' ! i = ps ! i"
    if i: "i < length ps" and un: "p_id (ps ! i) \<notin> (\<lambda>it. p_id (product it)) ` set items" for i
  proof -
    from un have "filter (\<lambda>it. p_id (product it) = p_id (ps ! i)) items = []"
      by (auto simp: filter_empty_conv image_iff)
    then have "p_stock (?ps' ! i) = p_stock (ps ! i)"
      by (simp add: foldl_decrementStock_stock [OF i])
    with rec [OF i] show ?thesis by simp
  qed
  have present: "?ps' = foldl decrementStock ps
                   (filter (\<lambda>it. p_id (product it) \<in> p_id ` set ps) items)"
    by (simp add: foldl_decrementStock_present)
  have ord: "ORDERS (memory_entries ?s') =
             Some (orders @ [(orderData nowTs tableId items obs)\<lparr>o_id := toString nowId\<rparr>])"
    using assms(2) by (simp add: createOrder_fallback_orders)
  have idx: "\<forall>i<length ps.
      ?ps' ! i = (ps ! i)\<lparr>p_stock := p_stock (?ps' ! i)\<rparr> \<and>
      (p_id (ps ! i) \<notin> (\<lambda>it. p_id (product it)) ` set items \<longrightarrow> ?ps' ! i = ps ! i)"
    using rec same by blast
  have t1: "TABLES (memory_entries ?s') = TABLES (memory_entries s)"
    and t2: "DB_CONFIG (memory_entries ?s') = DB_CONFIG (memory_entries s)"
    and t3: "TABLES (medium_entries ?s') = TABLES (medium_entries s)"
    and t4: "DB_CONFIG (medium_entries ?s') = DB_CONFIG (medium_entries s)"
    by (simp_all add: createOrder_fallback_fields)
  have rp: "write_products_fault f = None \<or> r \<noteq> None \<or> PRODUCTS (medium_entries s) = None \<longrightarrow>
      read_entry r PRODUCTS ?s' = Some ?ps'"
    using assms(1) by (simp add: createOrder_fallback_read_products)
  have ro: "write_orders_fault f = None \<or> r \<noteq> None \<or> ORDERS (medium_entries s) = None \<longrightarrow>
      read_entry r ORDERS ?s' =
        Some (orders @ [(orderData nowTs tableId items obs)\<lparr>o_id := toString nowId\<rparr>])"
    using assms(2) by (simp add: createOrder_fallback_read_orders)
  have stale: "write_orders_fault f \<noteq> None \<and> r = None \<and> ORDERS (medium_entries s) = Some old \<longrightarrow>
      read_entry r ORDERS ?s' = Some old"
    by (auto simp: createOrder_fallback_read_orders)
  show ?thesis
    apply (rule exI [of _ ?s'], rule exI [of _ ?ps'])
    apply (intro conjI)
    apply (rule run prod len idx present ord t1 t2 t3 t4 rp ro stale)+
    done
qed

text \<open>The theorem on the example store, with a medium that serves every access: five
  of the second product (stock 2) and one of a product that the catalog does not
  have.\<close>

theorem createOrder_frame_witness:
  "example_catalog =
     parsed_or_empty (read_entry (read_products_fault no_faults) PRODUCTS example_shadowed_store) \<and>
   [example_order] =
     parsed_or_empty (read_entry (read_orders_fault no_faults) ORDERS example_shadowed_store) \<and>
   write_products_fault no_faults = None \<and>
   write_orders_fault no_faults = None \<and>
   (\<exists>s'. createOrder no_faults 1000 1001 ''doc'' 5 example_items None None
            example_shadowed_store = Inr (None, s') \<and>
      read_entry None ORDERS s' =
        Some [example_order, (orderData 1000 5 example_items None)\<lparr>o_id := toString 1001\<rparr>] \<and>
      read_entry None PRODUCTS s' =
        Some [example_catalog ! 0, (example_catalog ! 1)\<lparr>p_stock := 0\<rparr>])"
proof -
  have h1: "example_catalog =
     parsed_or_empty (read_entry (read_products_fault no_faults) PRODUCTS example_shadowed_store)"
    by (simp add: no_faults_def example_shadowed_store_def example_store_def read_entry_def
        parsed_or_empty_simps)
  have h2: "[example_order] =
     parsed_or_empty (read_entry (read_orders_fault no_faults) ORDERS example_shadowed_store)"
    by (simp add: no_faults_def example_shadowed_store_def example_store_def read_entry_def
        parsed_or_empty_simps)
  have h3: "write_products_fault no_faults = None" by (simp add: no_faults_def)
  have h4: "write_orders_fault no_faults = None" by (simp add: no_faults_def)
  from createOrder_frame [OF h1 h2, where nowTs = 1000 and nowId = 1001 and newId = "''doc''"
      and tableId = 5 and items = example_items and obs = None and r = None
      and old = "[]"]
  obtain s' ps' where
    run: "createOrder no_faults 1000 1001 ''doc'' 5 example_items None None
            example_shadowed_store = Inr (None, s')"
    and ps': "ps' = foldl decrementStock example_catalog
                (filter (\<lambda>it. p_id (product it) \<in> p_id ` set example_catalog) example_items)"
    and rp: "write_products_fault no_faults = None \<or> None \<noteq> (None :: storage_error option) \<or>
               PRODUCTS (medium_entries example_shadowed_store) = None \<longrightarrow>
             read_entry None PRODUCTS s' = Some ps'"
    and ro: "write_orders_fault no_faults = None \<or> None \<noteq> (None :: storage_error option) \<or>
               ORDERS (medium_entries example_shadowed_store) = None \<longrightarrow>
             read_entry None ORDERS s' =
               Some ([example_order] @
                 [(orderData 1000 5 example_items None)\<lparr>o_id := toString 1001\<rparr>])"
    apply -
    apply (elim exE conjE)
    apply (rule that; assumption)
    done
  have p: "ps' = [example_catalog ! 0, (example_catalog ! 1)\<lparr>p_stock := 0\<rparr>]"
    unfolding ps'
    by (simp add: example_items_def example_catalog_def decrementStock_def)
  from ro h4 have a: "read_entry None ORDERS s' =
        Some [example_order, (orderData 1000 5 example_items None)\<lparr>o_id := toString 1001\<rparr>]"
    by simp
  from rp h3 p have b: "read_entry None PRODUCTS s' =
        Some [example_catalog ! 0, (example_catalog ! 1)\<lparr>p_stock := 0\<rparr>]"
    by simp
  have e: "\<exists>s'. createOrder no_faults 1000 1001 ''doc'' 5 example_items None None
            example_shadowed_store = Inr (None, s') \<and>
      read_entry None ORDERS s' =
        Some [example_order, (orderData 1000 5 example_items None)\<lparr>o_id := toString 1001\<rparr>] \<and>
      read_entry None PRODUCTS s' =
        Some [example_catalog ! 0, (example_catalog ! 1)\<lparr>p_stock := 0\<rparr>]"
    apply (rule exI [of _ s'])
    apply (intro conjI)
      apply (rule run a b)+
    done
  show ?thesis
    using h1 h2 h3 h4 e by (intro conjI) assumption+
qed

text \<open>
  Claim C10 as stated fails where it says that the order is appended regardless: when
  the medium refuses the writes of \<open>createOrder\<close> and holds older entries, the orders
  read back are the older ones, without the new order, and the catalog read back is
  the older one.
\<close>

theorem createOrder_refused_write_counterexample:
  "createOrder refused_writes 1000 1001 ''doc'' 5 example_items None None example_shadowed_store =
     Inr (None, createOrder_fallback refused_writes 1000 1001 5 example_items None
                  example_shadowed_store) \<and>
   read_entry None ORDERS
     (createOrder_fallback refused_writes 1000 1001 5 example_items None example_shadowed_store) =
     Some [example_order] \<and>
   read_entry None PRODUCTS
     (createOrder_fallback refused_writes 1000 1001 5 example_items None example_shadowed_store) =
     Some example_catalog"
  by (simp add: createOrder_def createOrder_fallback_read_orders
      createOrder_fallback_read_products refused_writes_def example_shadowed_store_def
      example_store_def)

text \<open>
  Claim C2, as it holds. In fallback mode \<open>createOrder\<close> returns, and the stock it
  writes for a product is the stock it read, taken through \<^verbatim>\<open>Math.max(0, stock - quantity)\<close>
  once for each item with the identifier of the product, in the order of the items,
  when the product is the first of the catalog with its identifier; the stock of any
  other product is written as it was read. So a catalog read without a negative stock
  is written without one, and the first product with the identifier of an item is
  written with a stock of at least zero whatever it was, also when more is ordered
  than is there. When no quantity is negative, the stock written for that product is
  its old stock minus the quantity ordered of it, floored at zero. The catalog read
  back afterwards is the one written when the medium accepted the write, or throws at
  the read, or held no catalog; when the medium refused the write and still serves an
  older catalog, the read gives the older catalog.
\<close>

theorem createOrder_stock_floor:
  assumes "ps = parsed_or_empty (read_entry (read_products_fault f) PRODUCTS s)"
  shows "\<exists>s' ps'.
           createOrder f nowTs nowId newId tableId items obs None s = Inr (None, s') \<and>
           PRODUCTS (memory_entries s') = Some ps' \<and>
           length ps' = length ps \<and>
           (\<forall>i<length ps.
              p_stock (ps' ! i) =
                (if first_with_id ps i
                 then foldl (\<lambda>st q. max 0 (st - q)) (p_stock (ps ! i))
                        (map quantity (filter (\<lambda>it. p_id (product it) = p_id (ps ! i)) items))
                 else p_stock (ps ! i))) \<and>
           ((\<forall>p\<in>set ps. 0 \<le> p_stock p) \<longrightarrow> (\<forall>p\<in>set ps'. 0 \<le> p_stock p)) \<and>
           (\<forall>i<length ps.
              first_with_id ps i \<and> p_id (ps ! i) \<in> (\<lambda>it. p_id (product it)) ` set items \<longrightarrow>
                0 \<le> p_stock (ps' ! i)) \<and>
           ((\<forall>it\<in>set items. 0 \<le> quantity it) \<longrightarrow>
              (\<forall>i<length ps.
                 first_with_id ps i \<and> p_id (ps ! i) \<in> (\<lambda>it. p_id (product it)) ` set items \<longrightarrow>
                   p_stock (ps' ! i) =
                     max 0 (p_stock (ps ! i) - ordered_quantity items (p_id (ps ! i))))) \<and>
           (write_products_fault f = None \<or> r \<noteq> None \<or> PRODUCTS (medium_entries s) = None \<longrightarrow>
              read_entry r PRODUCTS s' = Some ps') \<and>
           (write_products_fault f \<noteq> None \<and> r = None \<and> PRODUCTS (medium_entries s) = Some old \<longrightarrow>
              read_entry r PRODUCTS s' = Some old)"
proof -
  let ?ps' = "foldl decrementStock ps items"
  let ?s' = "createOrder_fallback f nowTs nowId tableId items obs s"
  let ?qs = "\<lambda>i. map quantity (filter (\<lambda>it. p_id (product it) = p_id (ps ! i)) items)"
  have run: "createOrder f nowTs nowId newId tableId items obs None s = Inr (None, ?s')"
    by (simp add: createOrder_def)
  have prod: "PRODUCTS (memory_entries ?s') = Some ?ps'"
    using assms by (simp add: createOrder_fallback_fields)
  have len: "length ?ps' = length ps"
    by (simp add: foldl_decrementStock adjust_all_length)
  have stock: "\<forall>i<length ps.
      p_stock (?ps' ! i) =
        (if first_with_id ps i
         then foldl (\<lambda>st q. max 0 (st - q)) (p_stock (ps ! i)) (?qs i)
         else p_stock (ps ! i))"
    by (simp add: foldl_decrementStock_stock)
  have keep: "0 \<le> p_stock (?ps' ! i)" if "i < length ps" and "0 \<le> p_stock (ps ! i)" for i
    using that by (simp add: foldl_decrementStock_stock floor_fold_nonneg_start)
  have inv: "(\<forall>p\<in>set ps. 0 \<le> p_stock p) \<longrightarrow> (\<forall>p\<in>set ?ps'. 0 \<le> p_stock p)"
  proof (intro impI ballI)
    fix p assume all: "\<forall>p\<in>set ps. 0 \<le> p_stock p" and "p \<in> set ?ps'"
    then obtain i where i: "i < length ?ps'" "p = ?ps' ! i"
      by (auto simp: in_set_conv_nth)
    with len all have "0 \<le> p_stock (ps ! i)" by simp
    with i len show "0 \<le> p_stock p" by (simp add: keep)
  qed
  have ref: "?qs i \<noteq> []"
    if "p_id (ps ! i) \<in> (\<lambda>it. p_id (product it)) ` set items" for i
    using that by (auto simp: filter_empty_conv)
  have floor: "\<forall>i<length ps.
      first_with_id ps i \<and> p_id (ps ! i) \<in> (\<lambda>it. p_id (product it)) ` set items \<longrightarrow>
        0 \<le> p_stock (?ps' ! i)"
  proof (intro allI impI)
    fix i assume "i < length ps"
      and "first_with_id ps i \<and> p_id (ps ! i) \<in> (\<lambda>it. p_id (product it)) ` set items"
    then show "0 \<le> p_stock (?ps' ! i)"
      using ref [of i] by (simp add: foldl_decrementStock_stock floor_fold_nonneg)
  qed
  have exact: "(\<forall>it\<in>set items. 0 \<le> quantity it) \<longrightarrow>
      (\<forall>i<length ps.
         first_with_id ps i \<and> p_id (ps ! i) \<in> (\<lambda>it. p_id (product it)) ` set items \<longrightarrow>
           p_stock (?ps' ! i) =
             max 0 (p_stock (ps ! i) - ordered_quantity items (p_id (ps ! i))))"
  proof (intro allI impI)
    fix i assume q: "\<forall>it\<in>set items. 0 \<le> quantity it" and i: "i < length ps"
      and fr: "first_with_id ps i \<and> p_id (ps ! i) \<in> (\<lambda>it. p_id (product it)) ` set items"
    have "\<forall>q\<in>set (?qs i). 0 \<le> q" using q by auto
    with ref [of i] fr
    have "foldl (\<lambda>s q. max 0 (s - q)) (p_stock (ps ! i)) (?qs i) =
            max 0 (p_stock (ps ! i) - sum_list (?qs i))"
      by (intro floor_fold_sum) simp_all
    with i fr show "p_stock (?ps' ! i) =
        max 0 (p_stock (ps ! i) - ordered_quantity items (p_id (ps ! i)))"
      by (simp add: foldl_decrementStock_stock ordered_quantity_def)
  qed
  have rp: "write_products_fault f = None \<or> r \<noteq> None \<or> PRODUCTS (medium_entries s) = None \<longrightarrow>
      read_entry r PRODUCTS ?s' = Some ?ps'"
    using assms by (simp add: createOrder_fallback_read_products)
  have stale: "write_products_fault f \<noteq> None \<and> r = None \<and> PRODUCTS (medium_entries s) = Some old \<longrightarrow>
      read_entry r PRODUCTS ?s' = Some old"
    by (auto simp: createOrder_fallback_read_products)
  show ?thesis
    apply (rule exI [of _ ?s'], rule exI [of _ ?ps'])
    apply (intro conjI)
    apply (rule run prod len stock inv floor exact rp stale)+
    done
qed

text \<open>The theorem on the example store, with a medium that serves every access: five
  are ordered of the second product, which has a stock of 2.\<close>

theorem createOrder_stock_floor_witness:
  "example_catalog =
     parsed_or_empty (read_entry (read_products_fault no_faults) PRODUCTS example_shadowed_store) \<and>
   list_all (\<lambda>p. 0 \<le> p_stock p) example_catalog \<and>
   list_all (\<lambda>it. 0 \<le> quantity it) example_items \<and>
   first_with_id example_catalog 1 \<and>
   p_id (example_catalog ! 1) \<in> (\<lambda>it. p_id (product it)) ` set example_items \<and>
   write_products_fault no_faults = None \<and>
   (\<exists>s' ps'.
      createOrder no_faults 1000 1001 ''doc'' 5 example_items None None example_shadowed_store =
        Inr (None, s') \<and>
      read_entry None PRODUCTS s' = Some ps' \<and>
      list_all (\<lambda>p. 0 \<le> p_stock p) ps' \<and>
      p_stock (ps' ! 1) = 0 \<and>
      p_stock (ps' ! 1) =
        max 0 (p_stock (example_catalog ! 1) -
               ordered_quantity example_items (p_id (example_catalog ! 1))))"
proof -
  have h1: "example_catalog =
     parsed_or_empty (read_entry (read_products_fault no_faults) PRODUCTS example_shadowed_store)"
    by (simp add: no_faults_def example_shadowed_store_def example_store_def read_entry_def
        parsed_or_empty_simps)
  have h2: "list_all (\<lambda>p. 0 \<le> p_stock p) example_catalog"
    by (simp add: example_catalog_def)
  have h3: "list_all (\<lambda>it. 0 \<le> quantity it) example_items"
    by (simp add: example_items_def)
  have h4: "first_with_id example_catalog 1"
    by (simp add: first_with_id_def example_catalog_def)
  have h5: "p_id (example_catalog ! 1) \<in> (\<lambda>it. p_id (product it)) ` set example_items"
    by (simp add: example_items_def)
  have h6: "write_products_fault no_faults = None" by (simp add: no_faults_def)
  have len: "1 < length example_catalog" by (simp add: example_catalog_def)
  from createOrder_stock_floor [OF h1, where nowTs = 1000 and nowId = 1001 and newId = "''doc''"
      and tableId = 5 and items = example_items and obs = None and r = None and old = "[]"]
  obtain s' ps' where
    run: "createOrder no_faults 1000 1001 ''doc'' 5 example_items None None
            example_shadowed_store = Inr (None, s')"
    and inv: "(\<forall>p\<in>set example_catalog. 0 \<le> p_stock p) \<longrightarrow> (\<forall>p\<in>set ps'. 0 \<le> p_stock p)"
    and floor: "\<forall>i<length example_catalog.
        first_with_id example_catalog i \<and>
        p_id (example_catalog ! i) \<in> (\<lambda>it. p_id (product it)) ` set example_items \<longrightarrow>
          0 \<le> p_stock (ps' ! i)"
    and exact: "(\<forall>it\<in>set example_items. 0 \<le> quantity it) \<longrightarrow>
        (\<forall>i<length example_catalog.
           first_with_id example_catalog i \<and>
           p_id (example_catalog ! i) \<in> (\<lambda>it. p_id (product it)) ` set example_items \<longrightarrow>
             p_stock (ps' ! i) =
               max 0 (p_stock (example_catalog ! i) -
                      ordered_quantity example_items (p_id (example_catalog ! i))))"
    and rp: "write_products_fault no_faults = None \<or> None \<noteq> (None :: storage_error option) \<or>
               PRODUCTS (medium_entries example_shadowed_store) = None \<longrightarrow>
             read_entry None PRODUCTS s' = Some ps'"
    apply -
    apply (elim exE conjE)
    apply (rule that; assumption)
    done
  from rp h6 have a: "read_entry None PRODUCTS s' = Some ps'" by simp
  from inv h2 have b: "list_all (\<lambda>p. 0 \<le> p_stock p) ps'"
    by (simp add: list_all_iff)
  from exact h3 len h4 h5 have c: "p_stock (ps' ! 1) =
        max 0 (p_stock (example_catalog ! 1) -
               ordered_quantity example_items (p_id (example_catalog ! 1)))"
    by (simp add: list_all_iff)
  have "ordered_quantity example_items (p_id (example_catalog ! 1)) = 5"
    by (simp add: ordered_quantity_def example_items_def example_catalog_def)
  with c have d: "p_stock (ps' ! 1) = 0"
    by (simp add: example_catalog_def)
  have e: "\<exists>s' ps'.
      createOrder no_faults 1000 1001 ''doc'' 5 example_items None None example_shadowed_store =
        Inr (None, s') \<and>
      read_entry None PRODUCTS s' = Some ps' \<and>
      list_all (\<lambda>p. 0 \<le> p_stock p) ps' \<and>
      p_stock (ps' ! 1) = 0 \<and>
      p_stock (ps' ! 1) =
        max 0 (p_stock (example_catalog ! 1) -
               ordered_quantity example_items (p_id (example_catalog ! 1)))"
    apply (rule exI [of _ s'], rule exI [of _ ps'])
    apply (intro conjI)
    apply (rule run a b c d)+
    done
  show ?thesis
    using h1 h2 h3 h4 h5 h6 e by (intro conjI) assumption+
qed

text \<open>
  Claim C2 as stated fails twice. A product with a negative stock that no item of the
  order names keeps its negative stock (\<open>-5\<close> here). And when the medium refuses the
  writes and holds the older catalog, the stock read back for the second product is
  still 2, not 2 minus 5 floored at zero.
\<close>

theorem createOrder_negative_stock_counterexample:
  "createOrder no_faults 1000 1001 ''doc'' 5 example_items None None overdrawn_store =
     Inr (None, createOrder_fallback no_faults 1000 1001 5 example_items None overdrawn_store) \<and>
   read_entry None PRODUCTS
     (createOrder_fallback no_faults 1000 1001 5 example_items None overdrawn_store) =
     Some [(example_catalog ! 0)\<lparr>p_stock := - 5\<rparr>, (example_catalog ! 1)\<lparr>p_stock := 0\<rparr>] \<and>
   p_stock ((example_catalog ! 0)\<lparr>p_stock := - 5\<rparr>) < 0 \<and>
   createOrder refused_writes 1000 1001 ''doc'' 5 example_items None None example_shadowed_store =
     Inr (None, createOrder_fallback refused_writes 1000 1001 5 example_items None
                  example_shadowed_store) \<and>
   read_entry None PRODUCTS
     (createOrder_fallback refused_writes 1000 1001 5 example_items None example_shadowed_store) =
     Some example_catalog \<and>
   p_stock (example_catalog ! 1) = 2 \<and>
   max 0 (p_stock (example_catalog ! 1) -
          ordered_quantity example_items (p_id (example_catalog ! 1))) = 0"
proof -
  have a: "read_entry None PRODUCTS
     (createOrder_fallback no_faults 1000 1001 5 example_items None overdrawn_store) =
     Some [(example_catalog ! 0)\<lparr>p_stock := - 5\<rparr>, (example_catalog ! 1)\<lparr>p_stock := 0\<rparr>]"
    unfolding createOrder_fallback_read_products
    by (simp add: no_faults_def overdrawn_store_def example_store_def read_entry_def
        parsed_or_empty_simps example_items_def example_catalog_def decrementStock_def)
  have b: "read_entry None PRODUCTS
     (createOrder_fallback refused_writes 1000 1001 5 example_items None example_shadowed_store) =
     Some example_catalog"
    unfolding createOrder_fallback_read_products
    by (simp add: refused_writes_def example_shadowed_store_def example_store_def)
  have c: "max 0 (p_stock (example_catalog ! 1) -
          ordered_quantity example_items (p_id (example_catalog ! 1))) = 0"
    by (simp add: example_items_def example_catalog_def ordered_quantity_def)
  show ?thesis
    unfolding a b c by (simp add: createOrder_def example_catalog_def)
qed

section \<open>updateOrderStatus in fallback mode\<close>








section \<open>finalizeTable\<close>

















section \<open>The backend selector\<close>

lemma connect_attempts:
  "attempts (connect sdk config db0) =
     (case config of None \<Rightarrow> [] | Some c \<Rightarrow> if apiKey c \<noteq> [] then [c] else [])"
  by (simp add: connect_def split: option.splits sum.splits)

lemma init_attempts:
  "attempts (init firebaseConfig sdk config sv) =
     (case reuse_existing sdk of
        Some d \<Rightarrow> []
      | None \<Rightarrow>
          (case resolve_config firebaseConfig config (store sv) of
             None \<Rightarrow> []
           | Some c \<Rightarrow> if apiKey c \<noteq> [] then [c] else []))"
  by (simp add: init_def connect_attempts split: option.splits)

lemma connect_unusable:
  "(case config of None \<Rightarrow> True | Some c \<Rightarrow> apiKey c = []) \<Longrightarrow>
     connect sdk config db0 = \<lparr>returned = Inr False, db_after = db0, attempts = []\<rparr>"
  by (simp add: connect_def split: option.splits)

text \<open>
  Claim C7, as it holds. \<open>init\<close> passes to \<open>initializeApp\<close> only a configuration
  whose API key is present. The test for the placeholder is made on the compiled-in
  configuration alone: when that configuration has a key without \<^verbatim>\<open>COLAR_\<close>, no other
  configuration is ever attempted. When no registered app is reused (none is
  registered, or recovering it throws), the compiled-in key is absent or a
  placeholder, and the argument (or, without an argument, the stored configuration)
  is absent, unparsable or without a key, \<open>init\<close> makes no attempt, returns \<open>false\<close>
  and leaves \<open>db\<close> as it was. When a registered app is reused, \<open>init\<close> makes no
  attempt, looks at no configuration, sets \<open>db\<close> to the handle of that app and
  returns \<open>true\<close>.
\<close>

theorem init_attempts_need_api_key:
  "(\<forall>c\<in>set (attempts (init firebaseConfig sdk config sv)). apiKey c \<noteq> []) \<and>
   (apiKey firebaseConfig \<noteq> [] \<and> \<not> str_includes (apiKey firebaseConfig) ''COLAR_'' \<longrightarrow>
      set (attempts (init firebaseConfig sdk config sv)) \<subseteq> {firebaseConfig}) \<and>
   (reuse_existing sdk = None \<and>
    (apiKey firebaseConfig = [] \<or> str_includes (apiKey firebaseConfig) ''COLAR_'') \<and>
    (case config of
       Some c \<Rightarrow> apiKey c = []
     | None \<Rightarrow>
         (case DB_CONFIG (store sv) of
            None \<Rightarrow> True
          | Some InvalidJson \<Rightarrow> True
          | Some (ConfigJson c) \<Rightarrow> apiKey c = [])) \<longrightarrow>
      init firebaseConfig sdk config sv =
        \<lparr>returned = Inr False, db_after = db sv, attempts = []\<rparr>) \<and>
   (reuse_existing sdk = Some d \<longrightarrow>
      init firebaseConfig sdk config sv =
        \<lparr>returned = Inr True, db_after = Some d, attempts = []\<rparr>)"
proof (intro conjI impI)
  show "\<forall>c\<in>set (attempts (init firebaseConfig sdk config sv)). apiKey c \<noteq> []"
    by (auto simp: init_attempts split: option.splits if_splits)
next
  assume "apiKey firebaseConfig \<noteq> [] \<and> \<not> str_includes (apiKey firebaseConfig) ''COLAR_''"
  then have "resolve_config firebaseConfig config (store sv) = Some firebaseConfig"
    by (simp add: resolve_config_def)
  then show "set (attempts (init firebaseConfig sdk config sv)) \<subseteq> {firebaseConfig}"
    by (auto simp: init_attempts split: option.splits if_splits)
next
  assume h: "reuse_existing sdk = None \<and>
    (apiKey firebaseConfig = [] \<or> str_includes (apiKey firebaseConfig) ''COLAR_'') \<and>
    (case config of
       Some c \<Rightarrow> apiKey c = []
     | None \<Rightarrow>
         (case DB_CONFIG (store sv) of
            None \<Rightarrow> True
          | Some InvalidJson \<Rightarrow> True
          | Some (ConfigJson c) \<Rightarrow> apiKey c = []))"
  then have reuse: "reuse_existing sdk = None"
    by simp
  from h have "case resolve_config firebaseConfig config (store sv) of
                 None \<Rightarrow> True | Some c \<Rightarrow> apiKey c = []"
    by (auto simp: resolve_config_def split: option.splits stored_config.splits)
  then have "connect sdk (resolve_config firebaseConfig config (store sv)) (db sv) =
      \<lparr>returned = Inr False, db_after = db sv, attempts = []\<rparr>"
    by (rule connect_unusable)
  with reuse show "init firebaseConfig sdk config sv =
      \<lparr>returned = Inr False, db_after = db sv, attempts = []\<rparr>"
    by (simp add: init_def)
next
  assume "reuse_existing sdk = Some d"
  then show "init firebaseConfig sdk config sv =
      \<lparr>returned = Inr True, db_after = Some d, attempts = []\<rparr>"
    by (simp add: init_def)
qed

text \<open>The theorem where nothing can be resolved (without a registered app, and with
  one whose recovery throws), where the compiled-in key is a real one, and where a
  registered app is reused.\<close>

theorem init_attempts_need_api_key_witness:
  "reuse_existing example_sdk = None \<and>
   reuse_existing (example_sdk\<lparr>getApps_length := 1\<rparr>) = None \<and>
   str_includes (apiKey placeholder_config) ''COLAR_'' \<and>
   DB_CONFIG (store example_service) = None \<and>
   init placeholder_config example_sdk None example_service =
     \<lparr>returned = Inr False, db_after = None, attempts = []\<rparr> \<and>
   init placeholder_config (example_sdk\<lparr>getApps_length := 1\<rparr>) None example_service =
     \<lparr>returned = Inr False, db_after = None, attempts = []\<rparr> \<and>
   apiKey (placeholder_config\<lparr>apiKey := ''AIzaSy''\<rparr>) \<noteq> [] \<and>
   \<not> str_includes (apiKey (placeholder_config\<lparr>apiKey := ''AIzaSy''\<rparr>)) ''COLAR_'' \<and>
   list_all (\<lambda>c. c = placeholder_config\<lparr>apiKey := ''AIzaSy''\<rparr>)
     (attempts (init (placeholder_config\<lparr>apiKey := ''AIzaSy''\<rparr>) example_sdk
                  (Some placeholder_config) example_service)) \<and>
   reuse_existing (example_sdk\<lparr>getApps_length := 1,
                     getApp_reuse := Inr (FirebaseApp ''[DEFAULT]'')\<rparr>) =
     Some example_firestore \<and>
   init placeholder_config
     (example_sdk\<lparr>getApps_length := 1, getApp_reuse := Inr (FirebaseApp ''[DEFAULT]'')\<rparr>)
     None example_service =
     \<lparr>returned = Inr True, db_after = Some example_firestore, attempts = []\<rparr>"
proof -
  have h1: "reuse_existing example_sdk = None"
    by (simp add: reuse_existing_def example_sdk_def)
  have h1': "reuse_existing (example_sdk\<lparr>getApps_length := 1\<rparr>) = None"
    by (simp add: reuse_existing_def example_sdk_def and_then_def)
  have h2: "str_includes (apiKey placeholder_config) ''COLAR_''"
    by (simp add: placeholder_config_def)
  have h3: "DB_CONFIG (store example_service) = None"
    by (simp add: example_service_def example_store_def)
  have h4: "db example_service = None"
    by (simp add: example_service_def)
  from init_attempts_need_api_key
         [where firebaseConfig = placeholder_config and sdk = example_sdk
            and config = None and sv = example_service] h1 h2 h3 h4
  have c1: "init placeholder_config example_sdk None example_service =
     \<lparr>returned = Inr False, db_after = None, attempts = []\<rparr>"
    by simp
  from init_attempts_need_api_key
         [where firebaseConfig = placeholder_config
            and sdk = "example_sdk\<lparr>getApps_length := 1\<rparr>"
            and config = None and sv = example_service] h1' h2 h3 h4
  have c1': "init placeholder_config (example_sdk\<lparr>getApps_length := 1\<rparr>) None example_service =
     \<lparr>returned = Inr False, db_after = None, attempts = []\<rparr>"
    by simp
  have h5: "apiKey (placeholder_config\<lparr>apiKey := ''AIzaSy''\<rparr>) \<noteq> []"
    by simp
  have h6: "\<not> str_includes (apiKey (placeholder_config\<lparr>apiKey := ''AIzaSy''\<rparr>)) ''COLAR_''"
    by simp
  from init_attempts_need_api_key
         [where firebaseConfig = "placeholder_config\<lparr>apiKey := ''AIzaSy''\<rparr>"
            and sdk = example_sdk and config = "Some placeholder_config"
            and sv = example_service] h5 h6
  have "set (attempts (init (placeholder_config\<lparr>apiKey := ''AIzaSy''\<rparr>) example_sdk
                  (Some placeholder_config) example_service))
          \<subseteq> {placeholder_config\<lparr>apiKey := ''AIzaSy''\<rparr>}"
    by blast
  then have c2: "list_all (\<lambda>c. c = placeholder_config\<lparr>apiKey := ''AIzaSy''\<rparr>)
     (attempts (init (placeholder_config\<lparr>apiKey := ''AIzaSy''\<rparr>) example_sdk
                  (Some placeholder_config) example_service))"
    by (auto simp: list_all_iff)
  have h7: "reuse_existing (example_sdk\<lparr>getApps_length := 1,
                     getApp_reuse := Inr (FirebaseApp ''[DEFAULT]'')\<rparr>) =
     Some example_firestore"
    by (simp add: reuse_existing_def example_sdk_def and_then_def)
  from init_attempts_need_api_key
         [where firebaseConfig = placeholder_config
            and sdk = "example_sdk\<lparr>getApps_length := 1,
                     getApp_reuse := Inr (FirebaseApp ''[DEFAULT]'')\<rparr>"
            and config = None and sv = example_service and d = example_firestore] h7
  have c3: "init placeholder_config
     (example_sdk\<lparr>getApps_length := 1, getApp_reuse := Inr (FirebaseApp ''[DEFAULT]'')\<rparr>)
     None example_service =
     \<lparr>returned = Inr True, db_after = Some example_firestore, attempts = []\<rparr>"
    by blast
  show ?thesis
    using h1 h1' h2 h3 c1 c1' h5 h6 c2 h7 c3 by (intro conjI) assumption+
qed

text \<open>
  Claim C7 as stated fails: with a placeholder compiled in, an argument whose key is
  the placeholder is passed to \<open>initializeApp\<close>; the connection is attempted, and
  here it succeeds.
\<close>

theorem init_placeholder_counterexample:
  "init placeholder_config example_sdk (Some placeholder_config) example_service =
     \<lparr>returned = Inr True, db_after = Some example_firestore,
      attempts = [placeholder_config]\<rparr> \<and>
   str_includes (apiKey placeholder_config) ''COLAR_''"
  by (simp add: init_def reuse_existing_def resolve_config_def connect_def
      example_sdk_def placeholder_config_def and_then_def)

section \<open>saveProduct on a name that is already stored\<close>

text \<open>What the fallback branch does with a product that has no identifier and the
  name of a stored product: stock, price and image of the stored product change, the
  description does not.\<close>

lemma saveProduct_local_restock:
  assumes "p_id product0 = []"
    and "findIndex (\<lambda>p. p_id p = []) (parsed_or_empty (PRODUCTS st)) = None"
    and "findIndex (\<lambda>p. p_name p = p_name product0 \<and> p_id p \<noteq> [])
           (parsed_or_empty (PRODUCTS st)) = Some j"
  shows "PRODUCTS (saveProduct_local now product0 st) =
           Some ((parsed_or_empty (PRODUCTS st))
                   [j := (parsed_or_empty (PRODUCTS st) ! j)
                      \<lparr>p_stock := p_stock (parsed_or_empty (PRODUCTS st) ! j) + p_stock product0,
                       p_price := p_price product0,
                       p_imageUrl :=
                         or_else (p_imageUrl product0)
                           (p_imageUrl (parsed_or_empty (PRODUCTS st) ! j))\<rparr>])"
  using assms by (simp add: saveProduct_local_def Let_def)

text \<open>
  Claim C1. A product without identifier and with the name of the second product of
  the catalog is saved, in fallback mode and in cloud mode. Both add the stock
  (\<open>2 + 10\<close>), take the new price, keep the image (the new one is empty) and create no
  second record. The cloud branch overwrites the description with the incoming one;
  the fallback branch keeps the old description, against the claim.
\<close>

theorem saveProduct_restock_keeps_description:
  "saveProduct 2000 ''doc'' example_restock example_service =
     Inr (example_service
            \<lparr>store := example_store
               \<lparr>PRODUCTS :=
                  Some [example_catalog ! 0,
                        (example_catalog ! 1)\<lparr>p_stock := 12, p_price := 30\<rparr>]\<rparr>\<rparr>) \<and>
   p_description ((example_catalog ! 1)\<lparr>p_stock := 12, p_price := 30\<rparr>) = ''Frita'' \<and>
   p_description example_restock = ''Nova'' \<and>
   saveProduct 2000 ''doc'' example_restock example_cloud_service =
     Inr (example_cloud_service
            \<lparr>db := Some (example_firestore
               \<lparr>products_col :=
                  [example_catalog ! 0,
                   (example_catalog ! 1)
                     \<lparr>p_stock := 12, p_price := 30, p_description := ''Nova''\<rparr>]\<rparr>)\<rparr>)"
  by (simp add: saveProduct_def saveProduct_local_def saveProduct_cloud_def
      example_service_def example_cloud_service_def example_store_def example_firestore_def
      example_catalog_def example_restock_def parsed_or_empty_simps or_else_def Let_def
      getDocs_products_def updateDoc_products_def backend_call_def and_then_def)

end
